theory Spec2Isabelle
  imports Main
begin

section \<open>References to host user-interface objects\<close>

text \<open>
  The host library \<^verbatim>\<open>omni.kit.ui_test\<close> hands out references to live user-interface
  objects. A reference is a \<^verbatim>\<open>WidgetRef(widget, path)\<close>; \<^verbatim>\<open>WindowRef\<close> is the
  subclass the host uses for a window, and \<^verbatim>\<open>OmniElement\<close>
  (\<^verbatim>\<open>utils/omnielement.py\<close>) is this repository's subclass.

  The host object itself is not code of this repository. The model keeps of it what the
  cache reads: its identity, whether it is an \<^verbatim>\<open>omni.ui.Window\<close>, and the full
  path the host computes for it (\<^verbatim>\<open>realpath\<close>: "the actual path of the widget").
  The attribute \<^verbatim>\<open>path\<close> of a reference is the string the reference was made
  with (the locator of the query that found the object).

  Reading \<^verbatim>\<open>path\<close> and \<^verbatim>\<open>realpath\<close> is taken to return: the model has the
  value the host gives while the widget exists, and the user interface does not change
  between the calls a theorem speaks of.
\<close>

record ui_object =
  handle :: nat
  is_window :: bool
  widget_path :: string

datatype ref_class = WidgetRef | WindowRef | OmniElementClass

record element =
  ref_class :: ref_class
  widget :: ui_object
  path :: string

text \<open>\<^verbatim>\<open>WidgetRef.realpath\<close>: the property is computed by the host from the widget.\<close>

definition realpath :: "element \<Rightarrow> string" where
  "realpath element = widget_path (widget element)"

text \<open>
  \<^verbatim>\<open>OmniElement.__init__(self, element)\<close> is
  \<^verbatim>\<open>super().__init__(element.widget, element.path)\<close>: a new reference of class
  \<^verbatim>\<open>OmniElement\<close> to the same widget, with the same path.
\<close>

definition OmniElement :: "element \<Rightarrow> element" where
  "OmniElement element =
     \<lparr>ref_class = OmniElementClass, widget = widget element, path = path element\<rparr>"

section \<open>The element cache (\<^verbatim>\<open>utils/element_cache.py\<close>)\<close>

text \<open>
  \<^verbatim>\<open>ElementCache.element_map\<close> is a Python \<^verbatim>\<open>dict\<close> from identifier to
  \<^verbatim>\<open>OmniElement\<close>. \<^verbatim>\<open>add_element\<close> iterates over it and returns at the first match,
  so the order of the entries matters: the dict is an association list in insertion order.
  A dict holds every key once; \<open>is_dict\<close> says so of a list.

  \<^verbatim>\<open>d[k] = v\<close> keeps the place of a key that is present and appends a new key.
\<close>

type_synonym element_dict = "(string \<times> element) list"

definition is_dict :: "element_dict \<Rightarrow> bool" where
  "is_dict d = distinct (map fst d)"

definition keys :: "element_dict \<Rightarrow> string list" where
  "keys d = map fst d"

fun setitem :: "element_dict \<Rightarrow> string \<Rightarrow> element \<Rightarrow> element_dict" where
  "setitem [] k v = [(k, v)]"
| "setitem ((k', v') # d) k v = (if k' = k then (k, v) # d else (k', v') # setitem d k v)"

text \<open>
  The identifiers come from \<^verbatim>\<open>str(uuid.uuid4())\<close>, a random source outside the
  repository. It is a parameter of the model: \<open>uuid n\<close> is the identifier the
  \<open>n\<close>-th call of the process returns, and the state counts the calls made so far.
  The process-wide state is the cache (\<^verbatim>\<open>element_cache = ElementCache()\<close>) and that
  counter.
\<close>

type_synonym uuid_source = "nat \<Rightarrow> string"

record server_state =
  element_map :: element_dict
  uuid_calls :: nat

definition uuid4 :: "uuid_source \<Rightarrow> server_state \<Rightarrow> string \<times> server_state" where
  "uuid4 uuid s = (uuid (uuid_calls s), s\<lparr>uuid_calls := Suc (uuid_calls s)\<rparr>)"

definition init :: server_state where
  "init = \<lparr>element_map = [], uuid_calls = 0\<rparr>"

datatype exn = KeyError | Exception string

text \<open>
  The loop of \<^verbatim>\<open>add_element\<close> under \<^verbatim>\<open>if exists_check\<close>: the first entry, in the
  order of the dict, whose path equals the path of a \<^verbatim>\<open>WindowRef\<close>, or whose
  realpath equals the realpath of a reference of any other class.
\<close>

fun find_existing :: "element \<Rightarrow> element_dict \<Rightarrow> string option" where
  "find_existing element [] = None"
| "find_existing element ((existing_id, cached_element) # rest) =
     (if ref_class element = WindowRef \<and> path element = path cached_element
      then Some existing_id
      else if ref_class element \<noteq> WindowRef \<and> realpath element = realpath cached_element
      then Some existing_id
      else find_existing element rest)"

definition add_element ::
  "uuid_source \<Rightarrow> element \<Rightarrow> bool \<Rightarrow> server_state \<Rightarrow> string \<times> server_state" where
  "add_element uuid element exists_check s =
     (case (if exists_check then find_existing element (element_map s) else None) of
        Some existing_id \<Rightarrow> (existing_id, s)
      | None \<Rightarrow>
          (let (identifier, s') = uuid4 uuid s
           in (identifier,
               s'\<lparr>element_map := setitem (element_map s') identifier (OmniElement element)\<rparr>)))"

definition get_map :: "server_state \<Rightarrow> element_dict" where
  "get_map s = element_map s"

definition reset_map :: "server_state \<Rightarrow> server_state" where
  "reset_map s = s\<lparr>element_map := []\<rparr>"

definition get_cached_element :: "string \<Rightarrow> server_state \<Rightarrow> exn + element" where
  "get_cached_element identifier s =
     (case map_of (element_map s) identifier of
        Some cached_element \<Rightarrow> Inr cached_element
      | None \<Rightarrow> Inl KeyError)"

section \<open>The host and the outcome of a request\<close>

text \<open>
  Every endpoint forwards to the host application. The host calls the modelled endpoints
  make are parameters: each either returns or raises a Python exception.
  \<^item> \<open>ui_find_all\<close>: \<^verbatim>\<open>ui_test.find_all(locator)\<close>;
  \<^item> \<open>widget_find_all\<close>: \<^verbatim>\<open>root_widget.find_all(locator)\<close>;
  \<^item> \<open>element_properties\<close>: \<^verbatim>\<open>element.get_properties()\<close>, the dict of host
    properties \<^verbatim>\<open>OmniElement.get_properties\<close> collects;
  \<^item> \<open>element_input\<close>: \<^verbatim>\<open>await element.input(text, human_delay_speed=...)\<close>;
  \<^item> \<open>element_text\<close>: the property \<^verbatim>\<open>element.text\<close>.

  An endpoint answers with its response model, raises \<^verbatim>\<open>fastapi.HTTPException\<close>
  with a status code and a detail, or lets another exception escape (\<open>Unhandled\<close>).
  The host library does not raise \<^verbatim>\<open>HTTPException\<close>: \<open>exn\<close> has no such case.
\<close>

type_synonym properties = "(string \<times> string) list"

record host =
  ui_find_all :: "string \<Rightarrow> exn + element list"
  widget_find_all :: "element \<Rightarrow> string \<Rightarrow> exn + element list"
  element_properties :: "element \<Rightarrow> exn + properties"
  element_input :: "element \<Rightarrow> string \<Rightarrow> nat \<Rightarrow> exn + unit"
  element_text :: "element \<Rightarrow> exn + string"

datatype detail = Detail string | DetailMessage string

datatype 'a outcome = Response 'a | HTTPException nat detail | Unhandled exn

text \<open>\<^verbatim>\<open>'{x}'\<close> inside an f-string.\<close>

definition quoted :: "string \<Rightarrow> string" where
  "quoted x = CHR 0x27 # x @ [CHR 0x27]"

text \<open>
  \<^verbatim>\<open>if request.root_widget_id:\<close> on an \<^verbatim>\<open>Optional[str]\<close>: \<^verbatim>\<open>None\<close> and the
  empty string are false.
\<close>

definition truthy :: "string option \<Rightarrow> bool" where
  "truthy v = (case v of None \<Rightarrow> False | Some x \<Rightarrow> x \<noteq> [])"

section \<open>The query endpoints (\<^verbatim>\<open>endpoints/query.py\<close>)\<close>

record find_element_request =
  locator :: string
  root_widget_id :: "string option"

record find_elements_request = find_element_request +
  get_properties :: bool

record find_element_response =
  element_id :: "string option"
  message :: string
  properties :: "properties option"

record find_elements_response =
  elements :: "find_element_response list"
  count :: nat

definition find_element ::
  "host \<Rightarrow> uuid_source \<Rightarrow> find_element_request \<Rightarrow> server_state \<Rightarrow>
     find_element_response outcome \<times> server_state" where
  "find_element h uuid request s =
     (case (if truthy (root_widget_id request)
            then (case get_cached_element (the (root_widget_id request)) s of
                    Inl KeyError \<Rightarrow>
                      HTTPException 404
                        (Detail (''No root elements found with ID '' @ the (root_widget_id request)))
                  | Inl e \<Rightarrow> Unhandled e
                  | Inr root_widget \<Rightarrow>
                      (case widget_find_all h root_widget (locator request) of
                         Inl KeyError \<Rightarrow>
                           HTTPException 404
                             (Detail (''No root elements found with ID '' @
                                the (root_widget_id request)))
                       | Inl e \<Rightarrow> Unhandled e
                       | Inr element \<Rightarrow> Response (Some root_widget, element)))
            else (case ui_find_all h (locator request) of
                    Inl e \<Rightarrow> Unhandled e
                  | Inr element \<Rightarrow> Response (None, element))) of
        HTTPException code d \<Rightarrow> (HTTPException code d, s)
      | Unhandled e \<Rightarrow> (Unhandled e, s)
      | Response (root, element) \<Rightarrow>
          (if element \<noteq> []
           then (let (identifier, s') = add_element uuid (hd element) True s;
                     msg =
                       (case root of
                          Some root_widget \<Rightarrow>
                            ''Element with locator '' @ quoted (locator request) @
                            '' and root widget '' @ realpath root_widget @
                            '' found and cached with ID '' @ quoted identifier
                        | None \<Rightarrow>
                            ''Element with locator '' @ quoted (locator request) @
                            '' found and cached with ID '' @ quoted identifier)
                 in (case get_cached_element identifier s' of
                       Inl e \<Rightarrow> (Unhandled e, s')
                     | Inr cached \<Rightarrow>
                         (case element_properties h cached of
                            Inl e \<Rightarrow> (Unhandled e, s')
                          | Inr p \<Rightarrow>
                              (Response \<lparr>element_id = Some identifier, message = msg,
                                         properties = Some p\<rparr>, s'))))
           else (HTTPException 404
                   (Detail (''No elements found with locator '' @ quoted (locator request))),
                 s)))"

text \<open>
  The \<^verbatim>\<open>for element in element_list\<close> loop of \<^verbatim>\<open>find_elements\<close>: it caches each
  element with the given \<^verbatim>\<open>exists_check\<close> and appends one response per element; an
  exception of the host leaves the loop with the cache as it is at that point.
\<close>

fun cache_elements ::
  "host \<Rightarrow> uuid_source \<Rightarrow> find_elements_request \<Rightarrow> element option \<Rightarrow> bool \<Rightarrow>
     element list \<Rightarrow> find_element_response list \<Rightarrow> server_state \<Rightarrow>
     find_element_response list outcome \<times> server_state" where
  "cache_elements h uuid request root exists_check [] response_list s =
     (Response response_list, s)"
| "cache_elements h uuid request root exists_check (element # rest) response_list s =
     (let (identifier, s') = add_element uuid element exists_check s;
          msg =
            (case root of
               Some root_widget \<Rightarrow>
                 ''Element with locator '' @ quoted (locator request) @
                 '' and root widget '' @ quoted (path root_widget) @
                 '' found and cached with ID '' @ quoted identifier
             | None \<Rightarrow>
                 ''Element with locator '' @ quoted (locator request) @
                 '' found and cached with ID '' @ quoted identifier)
      in if get_properties request
         then (case get_cached_element identifier s' of
                 Inl e \<Rightarrow> (Unhandled e, s')
               | Inr cached \<Rightarrow>
                   (case element_properties h cached of
                      Inl e \<Rightarrow> (Unhandled e, s')
                    | Inr p \<Rightarrow>
                        cache_elements h uuid request root exists_check rest
                          (response_list @
                             [\<lparr>element_id = Some identifier, message = msg,
                               properties = Some p\<rparr>]) s'))
         else cache_elements h uuid request root exists_check rest
                (response_list @
                   [\<lparr>element_id = Some identifier, message = msg, properties = None\<rparr>]) s')"

definition find_elements ::
  "host \<Rightarrow> uuid_source \<Rightarrow> find_elements_request \<Rightarrow> server_state \<Rightarrow>
     find_elements_response outcome \<times> server_state" where
  "find_elements h uuid request s =
     (case (if truthy (root_widget_id request)
            then (case get_cached_element (the (root_widget_id request)) s of
                    Inl KeyError \<Rightarrow>
                      HTTPException 404
                        (Detail (''No root elements found with ID '' @ the (root_widget_id request)))
                  | Inl e \<Rightarrow> Unhandled e
                  | Inr root_widget \<Rightarrow>
                      (case widget_find_all h root_widget (locator request) of
                         Inl KeyError \<Rightarrow>
                           HTTPException 404
                             (Detail (''No root elements found with ID '' @
                                the (root_widget_id request)))
                       | Inl e \<Rightarrow> Unhandled e
                       | Inr element_list \<Rightarrow> Response (Some root_widget, element_list)))
            else (case ui_find_all h (locator request) of
                    Inl e \<Rightarrow> Unhandled e
                  | Inr element_list \<Rightarrow> Response (None, element_list))) of
        HTTPException code d \<Rightarrow> (HTTPException code d, s)
      | Unhandled e \<Rightarrow> (Unhandled e, s)
      | Response (root, element_list) \<Rightarrow>
          (let exists_check = (if length element_list < 50 then True else False)
           in (case cache_elements h uuid request root exists_check element_list [] s of
                 (HTTPException code d, s') \<Rightarrow> (HTTPException code d, s')
               | (Unhandled e, s') \<Rightarrow> (Unhandled e, s')
               | (Response response_list, s') \<Rightarrow>
                   (if element_list = []
                    then (HTTPException 404
                            (Detail (''No elements found with locator '' @
                               quoted (locator request))), s')
                    else (Response \<lparr>elements = response_list, count = length response_list\<rparr>,
                          s')))))"

text \<open>
  \<^verbatim>\<open>widget_properties\<close>: the whole body is under \<^verbatim>\<open>except Exception\<close>, so a
  missing identifier and a failure of the host's properties end the same way.
\<close>

definition widget_properties ::
  "host \<Rightarrow> string \<Rightarrow> server_state \<Rightarrow> find_element_response outcome \<times> server_state" where
  "widget_properties h elem_id s =
     (case (case get_cached_element elem_id s of
              Inl e \<Rightarrow> Inl e
            | Inr cached \<Rightarrow> element_properties h cached) of
        Inl e \<Rightarrow> (HTTPException 404 (Detail (''No elements found with ID '' @ elem_id)), s)
      | Inr p \<Rightarrow>
          (Response \<lparr>element_id = Some elem_id,
                     message = ''Successfully fetched element properties'',
                     properties = Some p\<rparr>, s))"

section \<open>Endpoints that look an identifier up\<close>

text \<open>
  \<^verbatim>\<open>send_keys_to_element\<close> (\<^verbatim>\<open>endpoints/keyboard.py\<close>, the same text in both
  extensions). The arguments are the fields of \<^verbatim>\<open>SendKeysRequest\<close>.
\<close>

definition send_keys_to_element ::
  "host \<Rightarrow> string \<Rightarrow> string \<Rightarrow> nat \<Rightarrow> server_state \<Rightarrow> string outcome" where
  "send_keys_to_element h elem_id sent_text human_delay_speed s =
     (case (case get_cached_element elem_id s of
              Inl e \<Rightarrow> Inl e
            | Inr element \<Rightarrow>
                (case element_input h element sent_text human_delay_speed of
                   Inl e \<Rightarrow> Inl e
                 | Inr _ \<Rightarrow>
                     (case element_text h element of
                        Inl e \<Rightarrow> Inl e
                      | Inr t \<Rightarrow> Inr (if t = sent_text then True else False)))) of
        Inl KeyError \<Rightarrow>
          HTTPException 404 (Detail (''Element with Identifier '' @ elem_id @ '' not found''))
      | Inl e \<Rightarrow> Unhandled e
      | Inr result \<Rightarrow>
          (if result
           then Response (''Keys '' @ quoted sent_text @ '' sent to Element with Identifier '' @
                          elem_id @ '' and action validation passed.'')
           else HTTPException 500
                  (Detail (sent_text @ '' was sent to Element with Identifier '' @ elem_id @
                           '' but action validation failed.''))))"

text \<open>
  The other endpoints that take an identifier from the client. What each does with the
  element it finds is a conversation with the host; it is the parameter \<open>rest\<close>: the
  statements that follow the lookup, which return the endpoint's answer or raise.

  \<^verbatim>\<open>window_position\<close>, \<^verbatim>\<open>resize_window\<close> (\<^verbatim>\<open>endpoints/window.py\<close>) and
  \<^verbatim>\<open>bring_to_front\<close> (\<^verbatim>\<open>endpoints/widget.py\<close>) keep those statements in the
  \<^verbatim>\<open>try\<close> block whose only handler is \<^verbatim>\<open>except KeyError\<close>.
\<close>

definition window_position ::
  "(element \<Rightarrow> string outcome) \<Rightarrow> string \<Rightarrow> server_state \<Rightarrow> string outcome" where
  "window_position rest identifier s =
     (case (case get_cached_element identifier s of
              Inl e \<Rightarrow> Unhandled e
            | Inr element \<Rightarrow> rest element) of
        Unhandled KeyError \<Rightarrow>
          HTTPException 404
            (Detail (''Element with ID not found in element cache: '' @ identifier))
      | r \<Rightarrow> r)"

definition resize_window ::
  "(element \<Rightarrow> string outcome) \<Rightarrow> string \<Rightarrow> server_state \<Rightarrow> string outcome" where
  "resize_window rest elem_id s =
     (case (case get_cached_element elem_id s of
              Inl e \<Rightarrow> Unhandled e
            | Inr element \<Rightarrow> rest element) of
        Unhandled KeyError \<Rightarrow>
          HTTPException 404
            (Detail (''Element with ID '' @ elem_id @ '' not found in element cache.''))
      | r \<Rightarrow> r)"

definition bring_to_front ::
  "(element \<Rightarrow> string outcome) \<Rightarrow> string \<Rightarrow> server_state \<Rightarrow> string outcome" where
  "bring_to_front rest elem_id s =
     (case (case get_cached_element elem_id s of
              Inl e \<Rightarrow> Unhandled e
            | Inr element \<Rightarrow> rest element) of
        Unhandled KeyError \<Rightarrow>
          HTTPException 404
            (Detail (''Element with ID not found in element cache: '' @ elem_id))
      | r \<Rightarrow> r)"

text \<open>
  \<^verbatim>\<open>combobox_info\<close> and \<^verbatim>\<open>select_combobox_item\<close> (\<^verbatim>\<open>endpoints/widget.py\<close>) put
  only the lookup under \<^verbatim>\<open>except KeyError\<close>.
\<close>

definition combobox_info ::
  "(element \<Rightarrow> 'a outcome) \<Rightarrow> string \<Rightarrow> server_state \<Rightarrow> 'a outcome" where
  "combobox_info rest identifier s =
     (case get_cached_element identifier s of
        Inl KeyError \<Rightarrow>
          HTTPException 404
            (Detail (''Element with ID not found in element cache: '' @ identifier))
      | Inl e \<Rightarrow> Unhandled e
      | Inr element \<Rightarrow> rest element)"

definition select_combobox_item ::
  "(element \<Rightarrow> string outcome) \<Rightarrow> string \<Rightarrow> server_state \<Rightarrow> string outcome" where
  "select_combobox_item rest identifier s =
     (case get_cached_element identifier s of
        Inl KeyError \<Rightarrow>
          HTTPException 404 (Detail (''Element with Identifier '' @ identifier @ '' not found''))
      | Inl e \<Rightarrow> Unhandled e
      | Inr omni_element \<Rightarrow> rest omni_element)"

text \<open>
  The mouse endpoints (\<^verbatim>\<open>kit_control/endpoints/mouse.py\<close>) handle \<^verbatim>\<open>KeyError\<close>
  first and every other exception second. \<open>str_contains m sub\<close> is Python's
  \<^verbatim>\<open>sub in m\<close> on strings.

  Modelled from the spec: \<^verbatim>\<open>kit_control/utils/element_cache.py\<close>, the module these
  endpoints import, is not among the sources. The spec describes the two extensions as
  near-duplicates that share one element cache design, so they run here against the
  cache of \<^verbatim>\<open>omni.kit.test.automation.sample\<close> above.
\<close>

fun startswith :: "string \<Rightarrow> string \<Rightarrow> bool" where
  "startswith m [] = True"
| "startswith [] (c # sub) = False"
| "startswith (d # m) (c # sub) = (d = c \<and> startswith m sub)"

fun str_contains :: "string \<Rightarrow> string \<Rightarrow> bool" where
  "str_contains [] sub = (sub = [])"
| "str_contains (d # m) sub = (startswith (d # m) sub \<or> str_contains m sub)"

definition click ::
  "(element \<Rightarrow> exn + string) \<Rightarrow> string \<Rightarrow> server_state \<Rightarrow> string outcome" where
  "click rest elem_id s =
     (case (case get_cached_element elem_id s of
              Inl e \<Rightarrow> Inl e
            | Inr element \<Rightarrow> rest element) of
        Inl KeyError \<Rightarrow>
          HTTPException 404 (Detail (''Element with identifier '' @ elem_id @ '' not found''))
      | Inl (Exception m) \<Rightarrow>
          (if str_contains m ''OmniUI window''
           then HTTPException 500 (Detail m)
           else HTTPException 500
                  (Detail (''Click event not sent to Element with ID '' @ elem_id @ '': '' @ m)))
      | Inr msg \<Rightarrow> Response msg)"

definition double_click ::
  "(element \<Rightarrow> exn + string) \<Rightarrow> string \<Rightarrow> server_state \<Rightarrow> string outcome" where
  "double_click rest elem_id s =
     (case (case get_cached_element elem_id s of
              Inl e \<Rightarrow> Inl e
            | Inr element \<Rightarrow> rest element) of
        Inl KeyError \<Rightarrow>
          HTTPException 404 (Detail (''Element with identifier '' @ elem_id @ '' not found''))
      | Inl (Exception m) \<Rightarrow>
          (if str_contains m ''OmniUI window''
           then HTTPException 500 (Detail m)
           else HTTPException 500 (Detail ''Internal Server Error''))
      | Inr msg \<Rightarrow> Response msg)"

definition right_click ::
  "(element \<Rightarrow> exn + string) \<Rightarrow> string \<Rightarrow> server_state \<Rightarrow> string outcome" where
  "right_click rest elem_id s =
     (case (case get_cached_element elem_id s of
              Inl e \<Rightarrow> Inl e
            | Inr element \<Rightarrow> rest element) of
        Inl KeyError \<Rightarrow>
          HTTPException 404 (Detail (''Element with identifier '' @ elem_id @ '' not found''))
      | Inl (Exception m) \<Rightarrow>
          (if str_contains m ''OmniUI window''
           then HTTPException 500 (Detail m)
           else HTTPException 500 (Detail ''Internal Server Error''))
      | Inr msg \<Rightarrow> Response msg)"

definition drag_and_drop ::
  "(element \<Rightarrow> exn + string) \<Rightarrow> string \<Rightarrow> server_state \<Rightarrow> string outcome" where
  "drag_and_drop rest elem_id s =
     (case (case get_cached_element elem_id s of
              Inl e \<Rightarrow> Inl e
            | Inr element \<Rightarrow> rest element) of
        Inl KeyError \<Rightarrow>
          HTTPException 404 (Detail (''Element with identifier '' @ elem_id @ '' not found''))
      | Inl (Exception m) \<Rightarrow> HTTPException 500 (Detail ''Internal Server Error'')
      | Inr msg \<Rightarrow> Response msg)"

text \<open>
  \<^verbatim>\<open>scroll_into_view\<close> rewrites cached entries after the scroll
  (\<^verbatim>\<open>update_cached_elements_after_scroll\<close>), so its \<open>rest\<close> also returns the state.
\<close>

definition scroll_into_view ::
  "(element \<Rightarrow> server_state \<Rightarrow> (exn + string) \<times> server_state) \<Rightarrow> string \<Rightarrow> server_state \<Rightarrow>
     string outcome \<times> server_state" where
  "scroll_into_view rest elem_id s =
     (case (case get_cached_element elem_id s of
              Inl e \<Rightarrow> (Inl e, s)
            | Inr element \<Rightarrow> rest element s) of
        (Inl KeyError, s') \<Rightarrow>
          (HTTPException 404 (Detail (''Element with identifier '' @ elem_id @ '' not found'')),
           s')
      | (Inl e, s') \<Rightarrow> (Unhandled e, s')
      | (Inr msg, s') \<Rightarrow> (Response msg, s'))"

text \<open>\<^verbatim>\<open>reset_widget_cache\<close> (\<^verbatim>\<open>endpoints/widget.py\<close>, the same text in both extensions).\<close>

definition reset_widget_cache ::
  "server_state \<Rightarrow> (string \<times> string) list outcome \<times> server_state" where
  "reset_widget_cache s =
     (let s' = reset_map s
      in if get_map s' \<noteq> []
         then (HTTPException 500 (DetailMessage ''Server cache reset operation failed.''), s')
         else (Response [(''message'', ''Server widget cache has been successfully reset.'')],
               s'))"

section \<open>The properties in the specification's words\<close>

text \<open>
  The dedup-by-path lookup as the specification words it: a window reference matches a
  cached entry with the same path, any other reference one with the same realpath.
\<close>

definition dedup_match :: "element \<Rightarrow> element \<Rightarrow> bool" where
  "dedup_match element cached_element =
     (if ref_class element = WindowRef then path element = path cached_element
      else realpath element = realpath cached_element)"

text \<open>
  The search a find request makes of the host, when it gets that far: under the cached root
  widget when the request names one, over the whole user interface otherwise. There is
  none when the root identifier is not in the cache.
\<close>

definition host_search ::
  "host \<Rightarrow> 'a find_element_request_scheme \<Rightarrow> server_state \<Rightarrow> (exn + element list) option" where
  "host_search h request s =
     (if truthy (root_widget_id request)
      then (case get_cached_element (the (root_widget_id request)) s of
              Inl e \<Rightarrow> None
            | Inr root_widget \<Rightarrow> Some (widget_find_all h root_widget (locator request)))
      else Some (ui_find_all h (locator request)))"

text \<open>The root widget a find request searches under, for the message of the response.\<close>

definition search_root :: "'a find_element_request_scheme \<Rightarrow> server_state \<Rightarrow> element option" where
  "search_root request s =
     (if truthy (root_widget_id request)
      then (case get_cached_element (the (root_widget_id request)) s of
              Inl e \<Rightarrow> None
            | Inr root_widget \<Rightarrow> Some root_widget)
      else None)"

text \<open>
  Adding the elements of a list to the cache one after the other, all with the same
  \<^verbatim>\<open>exists_check\<close>: the identifiers \<^verbatim>\<open>add_element\<close> returns, in order, and the state
  after the last.
\<close>

fun add_elements ::
  "uuid_source \<Rightarrow> bool \<Rightarrow> element list \<Rightarrow> server_state \<Rightarrow> string list \<times> server_state" where
  "add_elements uuid exists_check [] s = ([], s)"
| "add_elements uuid exists_check (element # rest) s =
     (let (identifier, s') = add_element uuid element exists_check s;
          (identifiers, s'') = add_elements uuid exists_check rest s'
      in (identifier # identifiers, s''))"

text \<open>
  A cached entry is an \<^verbatim>\<open>OmniElement\<close>, whatever class it was made from; it refers to
  a window when its widget is one. Two cached entries have the same dedup key when both
  refer to windows and have the same path, or neither does and they have the same
  realpath. The host makes a \<^verbatim>\<open>WindowRef\<close> for a window and for nothing else
  (\<open>host_ref\<close>).
\<close>

definition same_key :: "element \<Rightarrow> element \<Rightarrow> bool" where
  "same_key x y =
     (if is_window (widget x) then is_window (widget y) \<and> path x = path y
      else \<not> is_window (widget y) \<and> realpath x = realpath y)"

definition dedup_injective :: "element_dict \<Rightarrow> bool" where
  "dedup_injective d =
     (\<forall>(i, x)\<in>set d. \<forall>(j, y)\<in>set d. i \<noteq> j \<longrightarrow> \<not> same_key x y)"

definition host_ref :: "element \<Rightarrow> bool" where
  "host_ref element = ((ref_class element = WindowRef) = is_window (widget element))"

text \<open>
  The cache states reachable when every insertion is \<^verbatim>\<open>add_element\<close> with
  \<^verbatim>\<open>exists_check=True\<close>: any sequence of such insertions and of \<^verbatim>\<open>reset_map\<close>,
  from the empty cache of the module.
\<close>

datatype cache_op = Add element | Reset

fun run :: "uuid_source \<Rightarrow> cache_op list \<Rightarrow> server_state \<Rightarrow> server_state" where
  "run uuid [] s = s"
| "run uuid (Add element # ops) s = run uuid ops (snd (add_element uuid element True s))"
| "run uuid (Reset # ops) s = run uuid ops (reset_map s)"

fun checked_op :: "cache_op \<Rightarrow> bool" where
  "checked_op (Add element) = host_ref element"
| "checked_op Reset = True"

text \<open>
  Any sequence of calls of the methods of \<^verbatim>\<open>ElementCache\<close> that write the map, with
  either value of \<^verbatim>\<open>exists_check\<close>. In a state reached from the empty cache every key
  is an identifier the source has returned (\<open>keys_drawn\<close>).
\<close>

datatype cache_call = AddElement element bool | ResetMap

fun calls :: "uuid_source \<Rightarrow> cache_call list \<Rightarrow> server_state \<Rightarrow> server_state" where
  "calls uuid [] s = s"
| "calls uuid (AddElement element exists_check # cs) s =
     calls uuid cs (snd (add_element uuid element exists_check s))"
| "calls uuid (ResetMap # cs) s = calls uuid cs (reset_map s)"

definition keys_drawn :: "uuid_source \<Rightarrow> server_state \<Rightarrow> bool" where
  "keys_drawn uuid s = (\<forall>k\<in>set (keys (element_map s)). \<exists>n<uuid_calls s. k = uuid n)"

section \<open>Concrete inputs\<close>

definition stage_window :: element where
  "stage_window =
     \<lparr>ref_class = WindowRef,
      widget = \<lparr>handle = 1, is_window = True, widget_path = ''Stage''\<rparr>,
      path = ''Stage''\<rparr>"

definition play_button :: element where
  "play_button =
     \<lparr>ref_class = WidgetRef,
      widget = \<lparr>handle = 2, is_window = False,
                widget_path = ''Toolbar//Frame/HStack[0]/Button[0]''\<rparr>,
      path = ''Toolbar//Frame/**/Button[*]''\<rparr>"

definition stop_button :: element where
  "stop_button =
     \<lparr>ref_class = WidgetRef,
      widget = \<lparr>handle = 3, is_window = False,
                widget_path = ''Toolbar//Frame/HStack[0]/Button[1]''\<rparr>,
      path = ''Toolbar//Frame/**/Button[*]''\<rparr>"

text \<open>A source of identifiers that never repeats.\<close>

definition counting_uuid :: uuid_source where
  "counting_uuid n = replicate (Suc n) (CHR ''u'')"

text \<open>A host that finds what it is told to find and reads two properties.\<close>

definition demo_host :: "element list \<Rightarrow> host" where
  "demo_host found =
     \<lparr>ui_find_all = (\<lambda>loc. Inr found),
      widget_find_all = (\<lambda>root loc. Inr found),
      element_properties = (\<lambda>e. Inr [(''path'', path e), (''real_path'', realpath e)]),
      element_input = (\<lambda>e t d. Inr ()),
      element_text = (\<lambda>e. Inr [])\<rparr>"

text \<open>A host whose search under a root widget raises \<^verbatim>\<open>KeyError\<close>.\<close>

definition raising_host :: host where
  "raising_host =
     \<lparr>ui_find_all = (\<lambda>loc. Inl KeyError),
      widget_find_all = (\<lambda>root loc. Inl KeyError),
      element_properties = (\<lambda>e. Inr [(''path'', path e), (''real_path'', realpath e)]),
      element_input = (\<lambda>e t d. Inr ()),
      element_text = (\<lambda>e. Inr [])\<rparr>"

section \<open>Facts about the dict\<close>

lemma map_of_setitem: "map_of (setitem d k v) = (map_of d)(k \<mapsto> v)"
  by (induction d) (auto simp: fun_eq_iff)

lemma keys_setitem:
  "keys (setitem d k v) = (if k \<in> set (keys d) then keys d else keys d @ [k])"
  by (induction d) (force simp: keys_def)+

lemma keys_setitem_set: "set (keys (setitem d k v)) = insert k (set (keys d))"
  by (auto simp: keys_setitem)

lemma is_dict_setitem: "is_dict d \<Longrightarrow> is_dict (setitem d k v)"
  using keys_setitem [of d k v] by (auto simp: is_dict_def keys_def)

lemma setitem_new: "k \<notin> set (keys d) \<Longrightarrow> setitem d k v = d @ [(k, v)]"
  by (induction d) (auto simp: keys_def)

lemma length_setitem:
  "length (setitem d k v) = (if k \<in> set (keys d) then length d else Suc (length d))"
  using arg_cong [OF keys_setitem [of d k v], of length] by (simp add: keys_def split: if_splits)

lemma map_of_is_dict: "is_dict d \<Longrightarrow> (k, v) \<in> set d \<Longrightarrow> map_of d k = Some v"
  by (simp add: is_dict_def)

lemma set_setitem: "set (setitem d k v) \<subseteq> insert (k, v) (set d)"
  by (induction d) (auto split: if_splits)

section \<open>Facts about the lookup of \<^verbatim>\<open>add_element\<close>\<close>

lemma find_existing_Cons:
  "find_existing e ((i, c) # d) = (if dedup_match e c then Some i else find_existing e d)"
  by (simp add: dedup_match_def)

lemma find_existing_None:
  "find_existing e d = None \<longleftrightarrow> (\<forall>(i, c)\<in>set d. \<not> dedup_match e c)"
  by (induction d)
    (auto simp: find_existing_Cons simp del: find_existing.simps(2) split: if_splits)

lemma find_existing_Some:
  "find_existing e d = Some i \<Longrightarrow> \<exists>c. (i, c) \<in> set d \<and> dedup_match e c"
  by (induction d) (auto simp: find_existing_Cons simp del: find_existing.simps(2) split: if_splits)

lemma dedup_match_OmniElement: "dedup_match e (OmniElement e)"
  by (simp add: dedup_match_def OmniElement_def realpath_def)

lemma find_existing_setitem_new:
  "find_existing e d = None \<Longrightarrow> find_existing e (setitem d k (OmniElement e)) = Some k"
  by (induction d)
    (auto simp: find_existing_Cons dedup_match_OmniElement simp del: find_existing.simps(2)
      split: if_splits)

lemma add_element_hit:
  "find_existing e (element_map s) = Some i \<Longrightarrow> add_element uuid e True s = (i, s)"
  by (simp add: add_element_def)

lemma add_element_insert:
  "\<not> b \<or> find_existing e (element_map s) = None \<Longrightarrow>
   add_element uuid e b s =
     (uuid (uuid_calls s),
      \<lparr>element_map = setitem (element_map s) (uuid (uuid_calls s)) (OmniElement e),
       uuid_calls = Suc (uuid_calls s)\<rparr>)"
  by (auto simp: add_element_def uuid4_def)

lemma add_element_cached:
  assumes "is_dict (element_map s)"
  shows "\<exists>c. get_cached_element (fst (add_element uuid e b s)) (snd (add_element uuid e b s))
               = Inr c
           \<and> dedup_match e c"
proof (cases "\<not> b \<or> find_existing e (element_map s) = None")
  case True
  then show ?thesis
    by (simp add: add_element_insert get_cached_element_def map_of_setitem
        dedup_match_OmniElement)
next
  case False
  then obtain i where i: "b" "find_existing e (element_map s) = Some i" by auto
  then obtain c where c: "(i, c) \<in> set (element_map s)" "dedup_match e c"
    using find_existing_Some by blast
  have "map_of (element_map s) i = Some c"
    using assms c(1) by (rule map_of_is_dict)
  with i c(2) show ?thesis
    by (simp add: add_element_hit get_cached_element_def)
qed

section \<open>The claims about the cache\<close>

text \<open>
  C1. For every element \<open>e\<close> and every cache state, the identifier \<^verbatim>\<open>add_element\<close>
  returns is found by \<^verbatim>\<open>get_cached_element\<close> in the state \<^verbatim>\<open>add_element\<close> leaves: no
  \<^verbatim>\<open>KeyError\<close>. The cached element it yields refers to the same widget path as \<open>e\<close>:
  the same path for a window reference, the same realpath (the path of the widget in the
  user interface) for any other. This holds with and without \<^verbatim>\<open>exists_check\<close>. On a
  dedup hit the attribute \<^verbatim>\<open>path\<close> of the cached element is the locator of the earlier
  request and need not be the one of \<open>e\<close>.
\<close>

theorem add_then_get:
  assumes "is_dict (element_map s)"
  shows "\<exists>c. get_cached_element (fst (add_element uuid e b s)) (snd (add_element uuid e b s))
               = Inr c
           \<and> (if ref_class e = WindowRef then path c = path e else realpath c = realpath e)"
  using add_element_cached [OF assms, of uuid e b] by (auto simp: dedup_match_def)

theorem add_then_get_witness:
  "is_dict [(''u'', OmniElement play_button)]
   \<and> (\<exists>c. get_cached_element
             (fst (add_element counting_uuid (play_button\<lparr>path := ''Toolbar//Frame/HStack[0]/Button[0]''\<rparr>)
                     True \<lparr>element_map = [(''u'', OmniElement play_button)], uuid_calls = 1\<rparr>))
             (snd (add_element counting_uuid (play_button\<lparr>path := ''Toolbar//Frame/HStack[0]/Button[0]''\<rparr>)
                     True \<lparr>element_map = [(''u'', OmniElement play_button)], uuid_calls = 1\<rparr>))
           = Inr c
         \<and> realpath c = ''Toolbar//Frame/HStack[0]/Button[0]'')"
  using add_then_get [of "\<lparr>element_map = [(''u'', OmniElement play_button)], uuid_calls = 1\<rparr>"
      counting_uuid "play_button\<lparr>path := ''Toolbar//Frame/HStack[0]/Button[0]''\<rparr>" True]
  by (simp add: is_dict_def play_button_def realpath_def)

text \<open>
  C7. \<^verbatim>\<open>add_element\<close> with \<^verbatim>\<open>exists_check=True\<close> is idempotent: called a second time
  with the same element, it returns the identifier of the first call and leaves the state
  of the first call as it is (the cache map, and no identifier is drawn).
\<close>

theorem add_element_idempotent:
  "add_element uuid e True (snd (add_element uuid e True s)) =
     (fst (add_element uuid e True s), snd (add_element uuid e True s))"
proof (cases "find_existing e (element_map s)")
  case None
  then show ?thesis
    by (simp add: add_element_insert add_element_hit find_existing_setitem_new)
next
  case (Some i)
  then show ?thesis by (simp add: add_element_hit)
qed

lemma find_dedup_match:
  "find_existing e d = map_option fst (find (\<lambda>(i, c). dedup_match e c) d)"
  by (induction d) (auto simp: find_existing_Cons simp del: find_existing.simps(2))

lemma get_cached_element_unchanged:
  "k \<noteq> k' \<Longrightarrow>
   get_cached_element k (s\<lparr>element_map := setitem (element_map s) k' v, uuid_calls := n\<rparr>)
     = get_cached_element k s"
  by (simp add: get_cached_element_def map_of_setitem)

text \<open>
  C2. \<^verbatim>\<open>add_element(e, exists_check=True)\<close> is a dedup-by-path lookup. If some cached
  entry matches \<open>e\<close> (same path for a window reference, same realpath otherwise), the
  identifier of the first such entry is returned and the state is left as it is: nothing
  is inserted and no identifier is generated. If no entry matches, a new identifier is
  generated and bound to \<^verbatim>\<open>OmniElement(e)\<close>.
\<close>

theorem add_element_dedup:
  "((\<exists>(i, c)\<in>set (element_map s). dedup_match e c) \<longrightarrow>
      (\<exists>i c. find (\<lambda>(i, c). dedup_match e c) (element_map s) = Some (i, c)
         \<and> dedup_match e c \<and> add_element uuid e True s = (i, s)))
   \<and> ((\<forall>(i, c)\<in>set (element_map s). \<not> dedup_match e c) \<longrightarrow>
      add_element uuid e True s =
        (uuid (uuid_calls s),
         \<lparr>element_map = setitem (element_map s) (uuid (uuid_calls s)) (OmniElement e),
          uuid_calls = Suc (uuid_calls s)\<rparr>)
      \<and> get_cached_element (uuid (uuid_calls s)) (snd (add_element uuid e True s))
          = Inr (OmniElement e))"
proof (intro conjI impI)
  assume "\<exists>(i, c)\<in>set (element_map s). dedup_match e c"
  then have "find (\<lambda>(i, c). dedup_match e c) (element_map s) \<noteq> None"
    by (auto simp: find_None_iff)
  then obtain i c where f: "find (\<lambda>(i, c). dedup_match e c) (element_map s) = Some (i, c)"
    by auto
  then have "dedup_match e c"
    by (auto simp: find_Some_iff)
  moreover have "find_existing e (element_map s) = Some i"
    using f by (simp add: find_dedup_match)
  ultimately show "\<exists>i c. find (\<lambda>(i, c). dedup_match e c) (element_map s) = Some (i, c)
      \<and> dedup_match e c \<and> add_element uuid e True s = (i, s)"
    using f by (auto simp: add_element_hit)
next
  assume "\<forall>(i, c)\<in>set (element_map s). \<not> dedup_match e c"
  then have n: "find_existing e (element_map s) = None"
    by (simp add: find_existing_None)
  then show "add_element uuid e True s =
        (uuid (uuid_calls s),
         \<lparr>element_map = setitem (element_map s) (uuid (uuid_calls s)) (OmniElement e),
          uuid_calls = Suc (uuid_calls s)\<rparr>)"
    by (simp add: add_element_insert)
  from n show "get_cached_element (uuid (uuid_calls s)) (snd (add_element uuid e True s))
      = Inr (OmniElement e)"
    by (simp add: add_element_insert get_cached_element_def map_of_setitem)
qed

theorem add_element_dedup_witness:
  "add_element counting_uuid (play_button\<lparr>path := ''Toolbar//Frame/HStack[0]/Button[0]''\<rparr>) True
     \<lparr>element_map = [(''u'', OmniElement stage_window), (''uu'', OmniElement play_button)],
      uuid_calls = 2\<rparr>
   = (''uu'',
      \<lparr>element_map = [(''u'', OmniElement stage_window), (''uu'', OmniElement play_button)],
       uuid_calls = 2\<rparr>)
   \<and> add_element counting_uuid stop_button True
       \<lparr>element_map = [(''u'', OmniElement stage_window), (''uu'', OmniElement play_button)],
        uuid_calls = 2\<rparr>
     = (''uuu'',
        \<lparr>element_map = [(''u'', OmniElement stage_window), (''uu'', OmniElement play_button),
                        (''uuu'', OmniElement stop_button)],
         uuid_calls = 3\<rparr>)"
  using add_element_dedup [of
      "\<lparr>element_map = [(''u'', OmniElement stage_window), (''uu'', OmniElement play_button)],
        uuid_calls = 2\<rparr>"
      "play_button\<lparr>path := ''Toolbar//Frame/HStack[0]/Button[0]''\<rparr>" counting_uuid]
    add_element_dedup [of
      "\<lparr>element_map = [(''u'', OmniElement stage_window), (''uu'', OmniElement play_button)],
        uuid_calls = 2\<rparr>"
      stop_button counting_uuid]
  by (simp add: dedup_match_def realpath_def OmniElement_def play_button_def stop_button_def
      stage_window_def counting_uuid_def numeral_2_eq_2 numeral_3_eq_3)

lemma add_element_append:
  assumes "\<not> exists_check \<or> (\<forall>(i, c)\<in>set (element_map s). \<not> dedup_match e c)"
    and "uuid (uuid_calls s) \<notin> set (keys (element_map s))"
  shows "fst (add_element uuid e exists_check s) = uuid (uuid_calls s)
       \<and> element_map (snd (add_element uuid e exists_check s))
           = element_map s @ [(uuid (uuid_calls s), OmniElement e)]
       \<and> (\<forall>k\<in>set (keys (element_map s)).
            get_cached_element k (snd (add_element uuid e exists_check s))
              = get_cached_element k s)
       \<and> length (element_map (snd (add_element uuid e exists_check s)))
           = Suc (length (element_map s))"
proof -
  from assms(1) have "\<not> exists_check \<or> find_existing e (element_map s) = None"
    by (simp add: find_existing_None)
  then have a: "add_element uuid e exists_check s =
      (uuid (uuid_calls s),
       \<lparr>element_map = setitem (element_map s) (uuid (uuid_calls s)) (OmniElement e),
        uuid_calls = Suc (uuid_calls s)\<rparr>)"
    by (rule add_element_insert)
  have b: "setitem (element_map s) (uuid (uuid_calls s)) (OmniElement e)
      = element_map s @ [(uuid (uuid_calls s), OmniElement e)]"
    using assms(2) by (rule setitem_new)
  have "get_cached_element k
          \<lparr>element_map = element_map s @ [(uuid (uuid_calls s), OmniElement e)],
           uuid_calls = Suc (uuid_calls s)\<rparr>
        = get_cached_element k s"
    if "k \<in> set (keys (element_map s))" for k
  proof -
    from that have "k \<in> dom (map_of (element_map s))"
      by (simp add: keys_def dom_map_of_conv_image_fst)
    then show ?thesis
      by (auto simp: get_cached_element_def map_add_def split: option.splits)
  qed
  with a b show ?thesis by simp
qed

text \<open>
  C9. \<^verbatim>\<open>reset_map\<close> empties the cache whatever it held, so \<^verbatim>\<open>get_map\<close> returns an
  empty dict right after it. The test \<^verbatim>\<open>if element_cache.get_map()\<close> of
  \<^verbatim>\<open>reset_widget_cache\<close> is therefore false: the endpoint returns the success message
  from every state, and never the HTTP 500 of its failure branch.
\<close>

theorem reset_widget_cache_succeeds:
  "get_map (reset_map s) = []
   \<and> reset_widget_cache s =
       (Response [(''message'', ''Server widget cache has been successfully reset.'')],
        reset_map s)
   \<and> fst (reset_widget_cache s)
       \<noteq> HTTPException 500 (DetailMessage ''Server cache reset operation failed.'')"
  by (simp add: reset_widget_cache_def reset_map_def get_map_def)

lemma is_dict_add_element:
  "is_dict (element_map s) \<Longrightarrow> is_dict (element_map (snd (add_element uuid e b s)))"
  by (cases "\<not> b \<or> find_existing e (element_map s) = None")
    (auto simp: add_element_insert add_element_hit is_dict_setitem)

lemma same_key_OmniElement_left:
  "host_ref e \<Longrightarrow> \<not> dedup_match e y \<Longrightarrow> \<not> same_key (OmniElement e) y"
  by (auto simp: host_ref_def dedup_match_def same_key_def OmniElement_def realpath_def
      split: if_splits)

lemma same_key_OmniElement_right:
  "host_ref e \<Longrightarrow> \<not> dedup_match e y \<Longrightarrow> \<not> same_key y (OmniElement e)"
  by (auto simp: host_ref_def dedup_match_def same_key_def OmniElement_def realpath_def
      split: if_splits)

lemma dedup_injective_setitem:
  assumes inv: "dedup_injective d"
    and ref: "host_ref e"
    and miss: "\<forall>(i, c)\<in>set d. \<not> dedup_match e c"
  shows "dedup_injective (setitem d k (OmniElement e))"
  unfolding dedup_injective_def
proof (intro ballI, clarify)
  fix i x j y
  assume x: "(i, x) \<in> set (setitem d k (OmniElement e))"
    and y: "(j, y) \<in> set (setitem d k (OmniElement e))"
    and ne: "i \<noteq> j" and same: "same_key x y"
  from x have x': "(i, x) = (k, OmniElement e) \<or> (i, x) \<in> set d"
    using set_setitem [of d k "OmniElement e"] by auto
  from y have y': "(j, y) = (k, OmniElement e) \<or> (j, y) \<in> set d"
    using set_setitem [of d k "OmniElement e"] by auto
  from x' y' show False
  proof (elim disjE)
    assume "(i, x) = (k, OmniElement e)" "(j, y) = (k, OmniElement e)"
    with ne show False by simp
  next
    assume a: "(i, x) = (k, OmniElement e)" "(j, y) \<in> set d"
    with miss have "\<not> dedup_match e y" by auto
    with ref have "\<not> same_key (OmniElement e) y" by (rule same_key_OmniElement_left)
    with a same show False by simp
  next
    assume a: "(i, x) \<in> set d" "(j, y) = (k, OmniElement e)"
    with miss have "\<not> dedup_match e x" by auto
    with ref have "\<not> same_key x (OmniElement e)" by (rule same_key_OmniElement_right)
    with a same show False by simp
  next
    assume "(i, x) \<in> set d" "(j, y) \<in> set d"
    with inv ne same show False by (auto simp: dedup_injective_def)
  qed
qed

lemma dedup_injective_add_element:
  assumes "dedup_injective (element_map s)" and "host_ref e"
  shows "dedup_injective (element_map (snd (add_element uuid e True s)))"
proof (cases "find_existing e (element_map s)")
  case None
  then have "\<forall>(i, c)\<in>set (element_map s). \<not> dedup_match e c"
    by (simp add: find_existing_None)
  with assms have "dedup_injective (setitem (element_map s) (uuid (uuid_calls s)) (OmniElement e))"
    by (rule dedup_injective_setitem)
  with None show ?thesis by (simp add: add_element_insert)
next
  case (Some i)
  with assms(1) show ?thesis by (simp add: add_element_hit)
qed

lemma run_invariant:
  "is_dict (element_map s) \<Longrightarrow> dedup_injective (element_map s) \<Longrightarrow>
   \<forall>op\<in>set ops. checked_op op \<Longrightarrow>
   is_dict (element_map (run uuid ops s)) \<and> dedup_injective (element_map (run uuid ops s))"
proof (induction ops arbitrary: s)
  case Nil
  then show ?case by simp
next
  case (Cons op ops)
  show ?case
  proof (cases op)
    case (Add e)
    with Cons.prems have "host_ref e" by simp
    with Cons.prems have
      "is_dict (element_map (snd (add_element uuid e True s)))"
      "dedup_injective (element_map (snd (add_element uuid e True s)))"
      by (simp_all add: is_dict_add_element dedup_injective_add_element)
    with Cons.IH [of "snd (add_element uuid e True s)"] Cons.prems(3) Add
    show ?thesis by simp
  next
    case Reset
    have "is_dict (element_map (reset_map s))" "dedup_injective (element_map (reset_map s))"
      by (simp_all add: reset_map_def is_dict_def dedup_injective_def)
    with Cons.IH [of "reset_map s"] Cons.prems(3) Reset
    show ?thesis by simp
  qed
qed

text \<open>
  C10. Take any sequence of calls of the methods of \<^verbatim>\<open>ElementCache\<close> that write the
  map, in which every insertion is \<^verbatim>\<open>add_element\<close> with \<^verbatim>\<open>exists_check=True\<close> (of a
  reference as the host makes them) and the rest are \<^verbatim>\<open>reset_map\<close>, run from the empty
  cache. In the state it reaches, the
  map is a dict and no two distinct identifiers map to elements with the same dedup key:
  no two window references with the same path, no two other references with the same
  realpath. This holds for every source of identifiers, also one that repeats.
\<close>

theorem dedup_injective_reachable:
  assumes "\<forall>op\<in>set ops. checked_op op"
  shows "is_dict (element_map (run uuid ops init))
       \<and> dedup_injective (element_map (run uuid ops init))"
proof -
  have "is_dict (element_map init)" "dedup_injective (element_map init)"
    by (simp_all add: init_def is_dict_def dedup_injective_def)
  then show ?thesis using assms by (rule run_invariant)
qed

theorem dedup_injective_reachable_witness:
  "checked_op (Add play_button) \<and> checked_op (Add stage_window) \<and> checked_op Reset
   \<and> checked_op (Add stop_button)
   \<and> element_map
        (run counting_uuid
           [Add play_button, Add stage_window, Reset, Add stop_button, Add play_button,
            Add stop_button, Add stage_window] init)
       = [(''uuu'', OmniElement stop_button), (''uuuu'', OmniElement play_button),
          (''uuuuu'', OmniElement stage_window)]
   \<and> dedup_injective
        [(''uuu'', OmniElement stop_button), (''uuuu'', OmniElement play_button),
         (''uuuuu'', OmniElement stage_window)]"
  using dedup_injective_reachable [of
      "[Add play_button, Add stage_window, Reset, Add stop_button, Add play_button,
        Add stop_button, Add stage_window]" counting_uuid]
  by (simp add: host_ref_def add_element_def uuid4_def init_def reset_map_def counting_uuid_def
      realpath_def OmniElement_def play_button_def stop_button_def stage_window_def)

section \<open>The claims about the endpoints\<close>

lemma get_cached_element_KeyError:
  "get_cached_element identifier s = Inl KeyError \<longleftrightarrow> identifier \<notin> set (keys (element_map s))"
  by (cases "map_of (element_map s) identifier")
    (auto simp: get_cached_element_def keys_def map_of_eq_None_iff [symmetric])

lemma get_cached_element_missing:
  "identifier \<notin> set (keys (element_map s)) \<Longrightarrow> get_cached_element identifier s = Inl KeyError"
  by (simp add: get_cached_element_KeyError)

lemma get_cached_element_stored:
  "is_dict (element_map s) \<Longrightarrow> (identifier, c) \<in> set (element_map s) \<Longrightarrow>
   get_cached_element identifier s = Inr c"
  by (simp add: get_cached_element_def map_of_is_dict)

lemma truthy_Some: "truthy (Some r) \<longleftrightarrow> r \<noteq> []"
  by (simp add: truthy_def)

lemma find_element_root_missing:
  "truthy (root_widget_id request) \<Longrightarrow>
   the (root_widget_id request) \<notin> set (keys (element_map s)) \<Longrightarrow>
   find_element h uuid request s =
     (HTTPException 404
        (Detail (''No root elements found with ID '' @ the (root_widget_id request))), s)"
  by (simp add: find_element_def get_cached_element_missing)

lemma find_elements_root_missing:
  "truthy (root_widget_id request) \<Longrightarrow>
   the (root_widget_id request) \<notin> set (keys (element_map s)) \<Longrightarrow>
   find_elements h uuid request s =
     (HTTPException 404
        (Detail (''No root elements found with ID '' @ the (root_widget_id request))), s)"
  by (simp add: find_elements_def get_cached_element_missing)

text \<open>
  C3. \<^verbatim>\<open>get_cached_element\<close> raises \<^verbatim>\<open>KeyError\<close> exactly when the identifier is not a
  key of the cache map, and returns the stored element otherwise. Every endpoint that
  resolves an identifier of the client through the cache answers a missing identifier
  with HTTP 404: \<^verbatim>\<open>widget_properties\<close>, \<^verbatim>\<open>send_keys_to_element\<close>, \<^verbatim>\<open>find_element\<close> and
  \<^verbatim>\<open>find_elements\<close> (for the root widget; an empty identifier is no root widget and is
  not looked up), \<^verbatim>\<open>window_position\<close>, \<^verbatim>\<open>resize_window\<close>, \<^verbatim>\<open>bring_to_front\<close>,
  \<^verbatim>\<open>combobox_info\<close>, \<^verbatim>\<open>select_combobox_item\<close>, \<^verbatim>\<open>click\<close>, \<^verbatim>\<open>double_click\<close>,
  \<^verbatim>\<open>right_click\<close>, \<^verbatim>\<open>drag_and_drop\<close> and \<^verbatim>\<open>scroll_into_view\<close>, whatever the host
  would have done with the element.
\<close>

theorem missing_identifier_404:
  "(get_cached_element elem_id s = Inl KeyError
      \<longleftrightarrow> elem_id \<notin> set (keys (element_map s)))
   \<and> (is_dict (element_map s) \<longrightarrow>
        (\<forall>c. (elem_id, c) \<in> set (element_map s) \<longrightarrow>
           get_cached_element elem_id s = Inr c))
   \<and> (elem_id \<notin> set (keys (element_map s)) \<longrightarrow>
        widget_properties h elem_id s =
          (HTTPException 404 (Detail (''No elements found with ID '' @ elem_id)), s)
      \<and> send_keys_to_element h elem_id sent_text speed s =
          HTTPException 404 (Detail (''Element with Identifier '' @ elem_id @ '' not found''))
      \<and> (elem_id \<noteq> [] \<longrightarrow>
           find_element h uuid \<lparr>locator = loc, root_widget_id = Some elem_id\<rparr> s =
             (HTTPException 404 (Detail (''No root elements found with ID '' @ elem_id)), s)
         \<and> find_elements h uuid
             \<lparr>locator = loc, root_widget_id = Some elem_id, get_properties = gp\<rparr> s =
             (HTTPException 404 (Detail (''No root elements found with ID '' @ elem_id)), s))
      \<and> window_position rest_position elem_id s =
          HTTPException 404
            (Detail (''Element with ID not found in element cache: '' @ elem_id))
      \<and> resize_window rest_resize elem_id s =
          HTTPException 404
            (Detail (''Element with ID '' @ elem_id @ '' not found in element cache.''))
      \<and> bring_to_front rest_front elem_id s =
          HTTPException 404
            (Detail (''Element with ID not found in element cache: '' @ elem_id))
      \<and> combobox_info rest_info elem_id s =
          HTTPException 404
            (Detail (''Element with ID not found in element cache: '' @ elem_id))
      \<and> select_combobox_item rest_select elem_id s =
          HTTPException 404 (Detail (''Element with Identifier '' @ elem_id @ '' not found''))
      \<and> click rest_click elem_id s =
          HTTPException 404 (Detail (''Element with identifier '' @ elem_id @ '' not found''))
      \<and> double_click rest_double elem_id s =
          HTTPException 404 (Detail (''Element with identifier '' @ elem_id @ '' not found''))
      \<and> right_click rest_right elem_id s =
          HTTPException 404 (Detail (''Element with identifier '' @ elem_id @ '' not found''))
      \<and> drag_and_drop rest_drag elem_id s =
          HTTPException 404 (Detail (''Element with identifier '' @ elem_id @ '' not found''))
      \<and> scroll_into_view rest_scroll elem_id s =
          (HTTPException 404 (Detail (''Element with identifier '' @ elem_id @ '' not found'')),
           s))"
proof (intro conjI impI allI)
  show "get_cached_element elem_id s = Inl KeyError
      \<longleftrightarrow> elem_id \<notin> set (keys (element_map s))"
    by (rule get_cached_element_KeyError)
next
  fix c
  assume "is_dict (element_map s)" "(elem_id, c) \<in> set (element_map s)"
  then show "get_cached_element elem_id s = Inr c"
    by (rule get_cached_element_stored)
next
  assume "elem_id \<notin> set (keys (element_map s))" "elem_id \<noteq> []"
  then show "find_element h uuid \<lparr>locator = loc, root_widget_id = Some elem_id\<rparr> s =
      (HTTPException 404 (Detail (''No root elements found with ID '' @ elem_id)), s)"
    using find_element_root_missing
      [of "\<lparr>locator = loc, root_widget_id = Some elem_id\<rparr>" s h uuid]
    by (simp add: truthy_Some)
next
  assume "elem_id \<notin> set (keys (element_map s))" "elem_id \<noteq> []"
  then show "find_elements h uuid
      \<lparr>locator = loc, root_widget_id = Some elem_id, get_properties = gp\<rparr> s =
      (HTTPException 404 (Detail (''No root elements found with ID '' @ elem_id)), s)"
    using find_elements_root_missing
      [of "\<lparr>locator = loc, root_widget_id = Some elem_id, get_properties = gp\<rparr>" s h uuid]
    by (simp add: truthy_Some)
qed (simp_all add: get_cached_element_missing widget_properties_def
    send_keys_to_element_def window_position_def resize_window_def bring_to_front_def
    combobox_info_def select_combobox_item_def click_def double_click_def right_click_def
    drag_and_drop_def scroll_into_view_def)

theorem missing_identifier_404_witness:
  "get_cached_element ''zz'' \<lparr>element_map = [(''u'', OmniElement play_button)], uuid_calls = 1\<rparr>
     = Inl KeyError
   \<and> is_dict [(''u'', OmniElement play_button)]
   \<and> get_cached_element ''u'' \<lparr>element_map = [(''u'', OmniElement play_button)], uuid_calls = 1\<rparr>
     = Inr (OmniElement play_button)
   \<and> widget_properties (demo_host [stop_button]) ''zz''
       \<lparr>element_map = [(''u'', OmniElement play_button)], uuid_calls = 1\<rparr>
     = (HTTPException 404 (Detail ''No elements found with ID zz''),
        \<lparr>element_map = [(''u'', OmniElement play_button)], uuid_calls = 1\<rparr>)
   \<and> send_keys_to_element (demo_host [stop_button]) ''zz'' ''abc'' 20
       \<lparr>element_map = [(''u'', OmniElement play_button)], uuid_calls = 1\<rparr>
     = HTTPException 404 (Detail ''Element with Identifier zz not found'')
   \<and> fst (find_element (demo_host [stop_button]) counting_uuid
            \<lparr>locator = ''**/Button[*]'', root_widget_id = Some ''zz''\<rparr>
            \<lparr>element_map = [(''u'', OmniElement play_button)], uuid_calls = 1\<rparr>)
     = HTTPException 404 (Detail ''No root elements found with ID zz'')"
  using missing_identifier_404 [where elem_id = "''zz''"
      and s = "\<lparr>element_map = [(''u'', OmniElement play_button)], uuid_calls = 1\<rparr>"
      and h = "demo_host [stop_button]" and sent_text = "''abc''" and speed = 20
      and uuid = counting_uuid and loc = "''**/Button[*]''" and gp = True
      and rest_position = "\<lambda>e. Response ''moved''" and rest_resize = "\<lambda>e. Response ''resized''"
      and rest_front = "\<lambda>e. Response ''raised''" and rest_info = "\<lambda>e. Response ''info''"
      and rest_select = "\<lambda>e. Response ''selected''" and rest_click = "\<lambda>e. Inr ''clicked''"
      and rest_double = "\<lambda>e. Inr ''clicked''" and rest_right = "\<lambda>e. Inr ''clicked''"
      and rest_drag = "\<lambda>e. Inr ''dropped''" and rest_scroll = "\<lambda>e s. (Inr ''scrolled'', s)"]
    missing_identifier_404 [where elem_id = "''u''"
      and s = "\<lparr>element_map = [(''u'', OmniElement play_button)], uuid_calls = 1\<rparr>"
      and h = "demo_host [stop_button]" and sent_text = "''abc''" and speed = 20
      and uuid = counting_uuid and loc = "''**/Button[*]''" and gp = True
      and rest_position = "\<lambda>e. Response ''moved''" and rest_resize = "\<lambda>e. Response ''resized''"
      and rest_front = "\<lambda>e. Response ''raised''" and rest_info = "\<lambda>e. Response ''info''"
      and rest_select = "\<lambda>e. Response ''selected''" and rest_click = "\<lambda>e. Inr ''clicked''"
      and rest_double = "\<lambda>e. Inr ''clicked''" and rest_right = "\<lambda>e. Inr ''clicked''"
      and rest_drag = "\<lambda>e. Inr ''dropped''" and rest_scroll = "\<lambda>e s. (Inr ''scrolled'', s)"]
  by (simp add: keys_def is_dict_def)


lemma host_search_None:
  "host_search h request s = None \<longleftrightarrow>
     truthy (root_widget_id request)
     \<and> the (root_widget_id request) \<notin> set (keys (element_map s))"
  by (auto simp: host_search_def get_cached_element_def keys_def map_of_eq_None_iff [symmetric]
      split: option.splits)

lemma find_element_search_KeyError:
  "host_search h request s = Some (Inl KeyError) \<Longrightarrow>
   find_element h uuid request s =
     (if truthy (root_widget_id request)
      then HTTPException 404
             (Detail (''No root elements found with ID '' @ the (root_widget_id request)))
      else Unhandled KeyError, s)"
  by (auto simp: host_search_def find_element_def split: if_splits sum.splits exn.splits)

lemma find_element_search_Exception:
  "host_search h request s = Some (Inl (Exception m)) \<Longrightarrow>
   find_element h uuid request s = (Unhandled (Exception m), s)"
  by (auto simp: host_search_def find_element_def split: if_splits sum.splits exn.splits)

lemma find_element_found_none:
  "host_search h request s = Some (Inr []) \<Longrightarrow>
   find_element h uuid request s =
     (HTTPException 404
        (Detail (''No elements found with locator '' @ quoted (locator request))), s)"
  by (auto simp: host_search_def find_element_def split: if_splits sum.splits exn.splits)

lemma find_element_found:
  assumes "host_search h request s = Some (Inr (e # es))"
    and "get_cached_element (fst (add_element uuid e True s)) (snd (add_element uuid e True s))
           = Inr c"
  shows "\<exists>m. find_element h uuid request s =
           (case element_properties h c of
              Inl x \<Rightarrow> Unhandled x
            | Inr p \<Rightarrow>
                Response \<lparr>element_id = Some (fst (add_element uuid e True s)), message = m,
                          properties = Some p\<rparr>,
            snd (add_element uuid e True s))"
  using assms
  by (cases "add_element uuid e True s")
    (auto simp: host_search_def find_element_def split: if_splits sum.splits exn.splits)


lemma cache_elements_no_HTTPException:
  "fst (cache_elements h uuid request root b els acc s) \<noteq> HTTPException code d"
proof (induction els arbitrary: acc s)
  case Nil
  then show ?case by simp
next
  case (Cons e els)
  show ?case
    by (cases "add_element uuid e b s")
      (auto simp: Cons.IH Let_def split: sum.splits if_splits)
qed

lemma find_elements_search_KeyError:
  "host_search h request s = Some (Inl KeyError) \<Longrightarrow>
   find_elements h uuid request s =
     (if truthy (root_widget_id request)
      then HTTPException 404
             (Detail (''No root elements found with ID '' @ the (root_widget_id request)))
      else Unhandled KeyError, s)"
  by (auto simp: host_search_def find_elements_def split: if_splits sum.splits exn.splits)

lemma find_elements_search_Exception:
  "host_search h request s = Some (Inl (Exception m)) \<Longrightarrow>
   find_elements h uuid request s = (Unhandled (Exception m), s)"
  by (auto simp: host_search_def find_elements_def split: if_splits sum.splits exn.splits)

lemma find_elements_found_none:
  "host_search h request s = Some (Inr []) \<Longrightarrow>
   find_elements h uuid request s =
     (HTTPException 404
        (Detail (''No elements found with locator '' @ quoted (locator request))), s)"
  by (auto simp: host_search_def find_elements_def split: if_splits sum.splits exn.splits)

lemma find_elements_found:
  assumes "host_search h request s = Some (Inr (e # es))"
    and "cache_elements h uuid request (search_root request s) (length (e # es) < 50)
           (e # es) [] s = (r, s')"
  shows "find_elements h uuid request s =
           (case r of
              Response response_list \<Rightarrow>
                Response \<lparr>elements = response_list, count = length response_list\<rparr>
            | HTTPException code d \<Rightarrow> HTTPException code d
            | Unhandled x \<Rightarrow> Unhandled x,
            s')"
  using assms
  by (cases r)
    (auto simp: host_search_def search_root_def find_elements_def
      simp del: cache_elements.simps split: if_splits sum.splits exn.splits)

lemma find_elements_found_not_404:
  assumes "host_search h request s = Some (Inr (e # es))"
  shows "fst (find_elements h uuid request s) \<noteq> HTTPException code d"
proof -
  obtain r s' where r: "cache_elements h uuid request (search_root request s)
      (length (e # es) < 50) (e # es) [] s = (r, s')"
    by (cases "cache_elements h uuid request (search_root request s)
      (length (e # es) < 50) (e # es) [] s")
  have "r \<noteq> HTTPException code d"
    using cache_elements_no_HTTPException
      [of h uuid request "search_root request s" "length (e # es) < 50" "e # es" "[]" s code d]
    unfolding r by simp
  then show ?thesis
    unfolding find_elements_found [OF assms r]
    by (cases r) auto
qed

lemma find_element_found_not_404:
  assumes "host_search h request s = Some (Inr (e # es))" and "is_dict (element_map s)"
  shows "fst (find_element h uuid request s) \<noteq> HTTPException code d"
proof -
  obtain c where "get_cached_element (fst (add_element uuid e True s))
      (snd (add_element uuid e True s)) = Inr c"
    using add_element_cached [OF assms(2), of uuid e True] by blast
  from find_element_found [OF assms(1) this] show ?thesis
    by (cases "element_properties h c") auto
qed

text \<open>
  C4, as the code has it. \<^verbatim>\<open>find_element\<close> answers with HTTP 404 in exactly three
  cases: a root widget identifier is supplied (a non-empty string; \<^verbatim>\<open>None\<close> and the empty
  string are no root widget) and is not in the cache; the root widget is cached and the
  host's \<^verbatim>\<open>root_widget.find_all\<close>, which runs in the same \<^verbatim>\<open>try\<close> block as the lookup,
  raises \<^verbatim>\<open>KeyError\<close>; or the search finds no element. Otherwise, when the search returns
  elements, the first one is cached (the state is the one \<^verbatim>\<open>add_element\<close> leaves for it)
  and, once the host has read the cached element's properties, the response carries the
  identifier \<^verbatim>\<open>add_element\<close> returned, a message and those properties.
\<close>

theorem find_element_404:
  assumes "is_dict (element_map s)"
  shows "((\<exists>d. fst (find_element h uuid request s) = HTTPException 404 d) \<longleftrightarrow>
            (truthy (root_widget_id request)
             \<and> the (root_widget_id request) \<notin> set (keys (element_map s)))
            \<or> (truthy (root_widget_id request)
                \<and> host_search h request s = Some (Inl KeyError))
            \<or> host_search h request s = Some (Inr []))
       \<and> (\<forall>e es. host_search h request s = Some (Inr (e # es)) \<longrightarrow>
            (\<exists>c. get_cached_element (fst (add_element uuid e True s))
                    (snd (add_element uuid e True s)) = Inr c
               \<and> (\<forall>p. element_properties h c = Inr p \<longrightarrow>
                    (\<exists>m. find_element h uuid request s =
                       (Response \<lparr>element_id = Some (fst (add_element uuid e True s)),
                                  message = m, properties = Some p\<rparr>,
                        snd (add_element uuid e True s))))))"
proof (intro conjI allI impI)
  show "(\<exists>d. fst (find_element h uuid request s) = HTTPException 404 d) \<longleftrightarrow>
            (truthy (root_widget_id request)
             \<and> the (root_widget_id request) \<notin> set (keys (element_map s)))
            \<or> (truthy (root_widget_id request)
                \<and> host_search h request s = Some (Inl KeyError))
            \<or> host_search h request s = Some (Inr [])"
  proof (cases "host_search h request s")
    case None
    then have "truthy (root_widget_id request)
        \<and> the (root_widget_id request) \<notin> set (keys (element_map s))"
      by (simp add: host_search_None)
    then show ?thesis by (simp add: find_element_root_missing)
  next
    case (Some r)
    then have n: "\<not> (truthy (root_widget_id request)
        \<and> the (root_widget_id request) \<notin> set (keys (element_map s)))"
      using host_search_None [of h request s] by simp
    show ?thesis
    proof (cases r)
      case (Inl x)
      show ?thesis
      proof (cases x)
        case KeyError
        with Some Inl n show ?thesis
          by (simp add: find_element_search_KeyError)
      next
        case (Exception m)
        with Some Inl n show ?thesis
          by (simp add: find_element_search_Exception)
      qed
    next
      case (Inr found)
      show ?thesis
      proof (cases found)
        case Nil
        with Some Inr show ?thesis by (simp add: find_element_found_none)
      next
        case (Cons e es)
        with Some Inr assms
        have "\<And>d. fst (find_element h uuid request s) \<noteq> HTTPException 404 d"
          by (simp add: find_element_found_not_404)
        with Some Inr n Cons show ?thesis by simp
      qed
    qed
  qed
next
  fix e es
  assume f: "host_search h request s = Some (Inr (e # es))"
  obtain c where c: "get_cached_element (fst (add_element uuid e True s))
      (snd (add_element uuid e True s)) = Inr c"
    using add_element_cached [OF assms, of uuid e True] by blast
  from find_element_found [OF f c]
  have "\<forall>p. element_properties h c = Inr p \<longrightarrow>
          (\<exists>m. find_element h uuid request s =
             (Response \<lparr>element_id = Some (fst (add_element uuid e True s)),
                        message = m, properties = Some p\<rparr>,
              snd (add_element uuid e True s)))"
    by auto
  with c show "\<exists>c. get_cached_element (fst (add_element uuid e True s))
                    (snd (add_element uuid e True s)) = Inr c
               \<and> (\<forall>p. element_properties h c = Inr p \<longrightarrow>
                    (\<exists>m. find_element h uuid request s =
                       (Response \<lparr>element_id = Some (fst (add_element uuid e True s)),
                                  message = m, properties = Some p\<rparr>,
                        snd (add_element uuid e True s))))"
    by blast
qed

theorem find_element_404_witness:
  "is_dict [(''u'', OmniElement play_button)]
   \<and> find_element (demo_host [stop_button]) counting_uuid
       \<lparr>locator = ''Toolbar//Frame/**/Button[*]'', root_widget_id = None\<rparr>
       \<lparr>element_map = [(''u'', OmniElement play_button)], uuid_calls = 1\<rparr>
     = (Response
          \<lparr>element_id = Some ''uu'',
           message = ''Element with locator '' @ quoted ''Toolbar//Frame/**/Button[*]'' @
                     '' found and cached with ID '' @ quoted ''uu'',
           properties = Some [(''path'', ''Toolbar//Frame/**/Button[*]''),
                              (''real_path'', ''Toolbar//Frame/HStack[0]/Button[1]'')]\<rparr>,
        \<lparr>element_map = [(''u'', OmniElement play_button), (''uu'', OmniElement stop_button)],
         uuid_calls = 2\<rparr>)
   \<and> find_element (demo_host []) counting_uuid
       \<lparr>locator = ''Toolbar//Frame/**/Button[*]'', root_widget_id = None\<rparr>
       \<lparr>element_map = [(''u'', OmniElement play_button)], uuid_calls = 1\<rparr>
     = (HTTPException 404
          (Detail (''No elements found with locator '' @ quoted ''Toolbar//Frame/**/Button[*]'')),
        \<lparr>element_map = [(''u'', OmniElement play_button)], uuid_calls = 1\<rparr>)
   \<and> find_element (demo_host [stop_button]) counting_uuid
       \<lparr>locator = ''Toolbar//Frame/**/Button[*]'', root_widget_id = Some ''zz''\<rparr>
       \<lparr>element_map = [(''u'', OmniElement play_button)], uuid_calls = 1\<rparr>
     = (HTTPException 404 (Detail ''No root elements found with ID zz''),
        \<lparr>element_map = [(''u'', OmniElement play_button)], uuid_calls = 1\<rparr>)
   \<and> find_element raising_host counting_uuid
       \<lparr>locator = ''Toolbar//Frame/**/Button[*]'', root_widget_id = Some ''u''\<rparr>
       \<lparr>element_map = [(''u'', OmniElement play_button)], uuid_calls = 1\<rparr>
     = (HTTPException 404 (Detail ''No root elements found with ID u''),
        \<lparr>element_map = [(''u'', OmniElement play_button)], uuid_calls = 1\<rparr>)
   \<and> fst (find_element raising_host counting_uuid
       \<lparr>locator = ''Toolbar//Frame/**/Button[*]'', root_widget_id = Some []\<rparr>
       \<lparr>element_map = [(''u'', OmniElement play_button)], uuid_calls = 1\<rparr>)
     = Unhandled KeyError"
  using find_element_404 [of
      "\<lparr>element_map = [(''u'', OmniElement play_button)], uuid_calls = 1\<rparr>"
      "demo_host [stop_button]" counting_uuid
      "\<lparr>locator = ''Toolbar//Frame/**/Button[*]'', root_widget_id = None\<rparr>"]
    find_element_404 [of
      "\<lparr>element_map = [(''u'', OmniElement play_button)], uuid_calls = 1\<rparr>"
      "demo_host []" counting_uuid
      "\<lparr>locator = ''Toolbar//Frame/**/Button[*]'', root_widget_id = None\<rparr>"]
    find_element_404 [of
      "\<lparr>element_map = [(''u'', OmniElement play_button)], uuid_calls = 1\<rparr>"
      "demo_host [stop_button]" counting_uuid
      "\<lparr>locator = ''Toolbar//Frame/**/Button[*]'', root_widget_id = Some ''zz''\<rparr>"]
    find_element_404 [of
      "\<lparr>element_map = [(''u'', OmniElement play_button)], uuid_calls = 1\<rparr>"
      raising_host counting_uuid
      "\<lparr>locator = ''Toolbar//Frame/**/Button[*]'', root_widget_id = Some ''u''\<rparr>"]
  by (simp add: host_search_def demo_host_def raising_host_def truthy_def is_dict_def
      find_element_def add_element_def uuid4_def counting_uuid_def get_cached_element_def
      OmniElement_def realpath_def play_button_def stop_button_def)

text \<open>
  The claim C4 as it is written names two cases. Here the root widget \<open>u\<close> is in the
  cache and the search has not returned an empty list: the host raised \<^verbatim>\<open>KeyError\<close> in
  \<^verbatim>\<open>root_widget.find_all\<close>, and the \<^verbatim>\<open>except KeyError\<close> of the lookup answers with 404.
\<close>

theorem find_element_third_404:
  "the (root_widget_id
          \<lparr>locator = ''Toolbar//Frame/**/Button[*]'', root_widget_id = Some ''u''\<rparr>)
     \<in> set (keys (element_map
          \<lparr>element_map = [(''u'', OmniElement play_button)], uuid_calls = 1\<rparr>))
   \<and> host_search raising_host
       \<lparr>locator = ''Toolbar//Frame/**/Button[*]'', root_widget_id = Some ''u''\<rparr>
       \<lparr>element_map = [(''u'', OmniElement play_button)], uuid_calls = 1\<rparr>
     = Some (Inl KeyError)
   \<and> fst (find_element raising_host counting_uuid
       \<lparr>locator = ''Toolbar//Frame/**/Button[*]'', root_widget_id = Some ''u''\<rparr>
       \<lparr>element_map = [(''u'', OmniElement play_button)], uuid_calls = 1\<rparr>)
     = HTTPException 404 (Detail ''No root elements found with ID u'')"
  by (simp add: host_search_def raising_host_def truthy_def keys_def find_element_def
      get_cached_element_def)

text \<open>
  C5. When \<^verbatim>\<open>find_element\<close>, \<^verbatim>\<open>find_elements\<close> or \<^verbatim>\<open>widget_properties\<close> ends in
  an HTTP 404, the state after the request is the state before it: the cache map has
  the same entries in the same order, and no identifier was drawn.
\<close>

theorem not_found_leaves_cache:
  "(fst (find_element h uuid request s) = HTTPException 404 d \<longrightarrow>
      snd (find_element h uuid request s) = s)
   \<and> (fst (find_elements h uuid requests s) = HTTPException 404 d' \<longrightarrow>
      snd (find_elements h uuid requests s) = s)
   \<and> (fst (widget_properties h elem_id s) = HTTPException 404 d'' \<longrightarrow>
      snd (widget_properties h elem_id s) = s)"
proof (intro conjI impI)
  assume a: "fst (find_element h uuid request s) = HTTPException 404 d"
  show "snd (find_element h uuid request s) = s"
  proof (cases "host_search h request s")
    case None
    then show ?thesis by (simp add: host_search_None find_element_root_missing)
  next
    case (Some r)
    show ?thesis
    proof (cases r)
      case (Inl x)
      with Some show ?thesis
        by (cases x) (simp_all add: find_element_search_KeyError find_element_search_Exception)
    next
      case (Inr found)
      show ?thesis
      proof (cases found)
        case Nil
        with Some Inr show ?thesis by (simp add: find_element_found_none)
      next
        case (Cons e es)
        with Some Inr a show ?thesis
          by (cases "add_element uuid e True s")
            (auto simp: host_search_def find_element_def
              split: if_splits sum.splits exn.splits)
      qed
    qed
  qed
next
  assume a: "fst (find_elements h uuid requests s) = HTTPException 404 d'"
  show "snd (find_elements h uuid requests s) = s"
  proof (cases "host_search h requests s")
    case None
    then show ?thesis by (simp add: host_search_None find_elements_root_missing)
  next
    case (Some r)
    show ?thesis
    proof (cases r)
      case (Inl x)
      with Some show ?thesis
        by (cases x) (simp_all add: find_elements_search_KeyError find_elements_search_Exception)
    next
      case (Inr found)
      show ?thesis
      proof (cases found)
        case Nil
        with Some Inr show ?thesis by (simp add: find_elements_found_none)
      next
        case (Cons e es)
        with Some Inr a show ?thesis
          using find_elements_found_not_404 [of h requests s e es uuid 404 d'] by simp
      qed
    qed
  qed
next
  show "snd (widget_properties h elem_id s) = s"
    by (simp add: widget_properties_def split: sum.splits)
qed

theorem not_found_leaves_cache_witness:
  "find_element (demo_host []) counting_uuid
       \<lparr>locator = ''Toolbar//Frame/**/Button[*]'', root_widget_id = None\<rparr>
       \<lparr>element_map = [(''u'', OmniElement play_button)], uuid_calls = 1\<rparr>
     = (HTTPException 404
          (Detail (''No elements found with locator '' @ quoted ''Toolbar//Frame/**/Button[*]'')),
        \<lparr>element_map = [(''u'', OmniElement play_button)], uuid_calls = 1\<rparr>)
   \<and> find_elements (demo_host []) counting_uuid
       \<lparr>locator = ''Toolbar//Frame/**/Button[*]'', root_widget_id = Some ''u'',
        get_properties = True\<rparr>
       \<lparr>element_map = [(''u'', OmniElement play_button)], uuid_calls = 1\<rparr>
     = (HTTPException 404
          (Detail (''No elements found with locator '' @ quoted ''Toolbar//Frame/**/Button[*]'')),
        \<lparr>element_map = [(''u'', OmniElement play_button)], uuid_calls = 1\<rparr>)
   \<and> widget_properties (demo_host []) ''zz''
       \<lparr>element_map = [(''u'', OmniElement play_button)], uuid_calls = 1\<rparr>
     = (HTTPException 404 (Detail ''No elements found with ID zz''),
        \<lparr>element_map = [(''u'', OmniElement play_button)], uuid_calls = 1\<rparr>)"
  using not_found_leaves_cache [of "demo_host []" counting_uuid
      "\<lparr>locator = ''Toolbar//Frame/**/Button[*]'', root_widget_id = None\<rparr>"
      "\<lparr>element_map = [(''u'', OmniElement play_button)], uuid_calls = 1\<rparr>"
      "Detail (''No elements found with locator '' @ quoted ''Toolbar//Frame/**/Button[*]'')"
      "\<lparr>locator = ''Toolbar//Frame/**/Button[*]'', root_widget_id = Some ''u'',
        get_properties = True\<rparr>"
      "Detail (''No elements found with locator '' @ quoted ''Toolbar//Frame/**/Button[*]'')"
      "''zz''" "Detail ''No elements found with ID zz''"]
  by (simp add: demo_host_def truthy_def find_element_def find_elements_def
      widget_properties_def get_cached_element_def)


lemma add_elements_Cons:
  "add_elements uuid b (e # es) s =
     (fst (add_element uuid e b s) # fst (add_elements uuid b es (snd (add_element uuid e b s))),
      snd (add_elements uuid b es (snd (add_element uuid e b s))))"
  by (simp add: split_beta)

lemma cache_elements_add_elements:
  assumes "is_dict (element_map s)"
    and "get_properties request \<longrightarrow> (\<forall>c. \<exists>p. element_properties h c = Inr p)"
  shows "\<exists>rs. cache_elements h uuid request root b els acc s
             = (Response rs, snd (add_elements uuid b els s))
           \<and> map element_id rs = map element_id acc @ map Some (fst (add_elements uuid b els s))"
  using assms(1)
proof (induction els arbitrary: acc s)
  case Nil
  then show ?case by simp
next
  case (Cons e els)
  obtain i s1 where a: "add_element uuid e b s = (i, s1)"
    by (cases "add_element uuid e b s")
  have d: "is_dict (element_map s1)"
    using is_dict_add_element [OF Cons.prems, of uuid e b] a by simp
  obtain c where c: "get_cached_element i s1 = Inr c"
    using add_element_cached [OF Cons.prems, of uuid e b] a by auto
  show ?case
  proof (cases "get_properties request")
    case True
    with assms(2) obtain p where p: "element_properties h c = Inr p" by blast
    from Cons.IH [OF d] obtain rs where
      "cache_elements h uuid request root b els
         (acc @ [\<lparr>element_id = Some i,
                  message = (case root of
                     Some root_widget \<Rightarrow>
                       ''Element with locator '' @ quoted (locator request) @
                       '' and root widget '' @ quoted (path root_widget) @
                       '' found and cached with ID '' @ quoted i
                   | None \<Rightarrow>
                       ''Element with locator '' @ quoted (locator request) @
                       '' found and cached with ID '' @ quoted i),
                  properties = Some p\<rparr>]) s1
         = (Response rs, snd (add_elements uuid b els s1))
       \<and> map element_id rs
           = map element_id
               (acc @ [\<lparr>element_id = Some i,
                  message = (case root of
                     Some root_widget \<Rightarrow>
                       ''Element with locator '' @ quoted (locator request) @
                       '' and root widget '' @ quoted (path root_widget) @
                       '' found and cached with ID '' @ quoted i
                   | None \<Rightarrow>
                       ''Element with locator '' @ quoted (locator request) @
                       '' found and cached with ID '' @ quoted i),
                  properties = Some p\<rparr>])
             @ map Some (fst (add_elements uuid b els s1))"
      by blast
    with a c p True show ?thesis
      by (simp add: add_elements_Cons del: add_elements.simps)
  next
    case False
    from Cons.IH [OF d] obtain rs where
      "cache_elements h uuid request root b els
         (acc @ [\<lparr>element_id = Some i,
                  message = (case root of
                     Some root_widget \<Rightarrow>
                       ''Element with locator '' @ quoted (locator request) @
                       '' and root widget '' @ quoted (path root_widget) @
                       '' found and cached with ID '' @ quoted i
                   | None \<Rightarrow>
                       ''Element with locator '' @ quoted (locator request) @
                       '' found and cached with ID '' @ quoted i),
                  properties = None\<rparr>]) s1
         = (Response rs, snd (add_elements uuid b els s1))
       \<and> map element_id rs
           = map element_id
               (acc @ [\<lparr>element_id = Some i,
                  message = (case root of
                     Some root_widget \<Rightarrow>
                       ''Element with locator '' @ quoted (locator request) @
                       '' and root widget '' @ quoted (path root_widget) @
                       '' found and cached with ID '' @ quoted i
                   | None \<Rightarrow>
                       ''Element with locator '' @ quoted (locator request) @
                       '' found and cached with ID '' @ quoted i),
                  properties = None\<rparr>])
             @ map Some (fst (add_elements uuid b els s1))"
      by blast
    with a False show ?thesis
      by (simp add: add_elements_Cons del: add_elements.simps)
  qed
qed

lemma add_elements_all_cached:
  "\<forall>e\<in>set els. \<exists>(i, c)\<in>set (element_map s). dedup_match e c \<Longrightarrow>
   snd (add_elements uuid True els s) = s"
proof (induction els)
  case Nil
  then show ?case by simp
next
  case (Cons e els)
  then have "find_existing e (element_map s) \<noteq> None"
    by (auto simp: find_existing_None)
  then obtain i where "find_existing e (element_map s) = Some i" by auto
  then have "add_element uuid e True s = (i, s)" by (rule add_element_hit)
  with Cons show ?case by (simp add: add_elements_Cons del: add_elements.simps)
qed

lemma add_elements_unchecked_ids:
  "fst (add_elements uuid False els s) = map uuid [uuid_calls s..<uuid_calls s + length els]
   \<and> uuid_calls (snd (add_elements uuid False els s)) = uuid_calls s + length els"
proof (induction els arbitrary: s)
  case Nil
  then show ?case by simp
next
  case (Cons e els)
  have a: "add_element uuid e False s =
      (uuid (uuid_calls s),
       \<lparr>element_map = setitem (element_map s) (uuid (uuid_calls s)) (OmniElement e),
        uuid_calls = Suc (uuid_calls s)\<rparr>)"
    by (simp add: add_element_insert)
  have "[uuid_calls s..<uuid_calls s + length (e # els)]
      = uuid_calls s # [Suc (uuid_calls s)..<uuid_calls s + length (e # els)]"
    by (rule upt_conv_Cons) simp
  then have "[uuid_calls s..<uuid_calls s + length (e # els)]
      = uuid_calls s # [Suc (uuid_calls s)..<Suc (uuid_calls s) + length els]"
    by (simp del: upt_Suc)
  with Cons [of "\<lparr>element_map = setitem (element_map s) (uuid (uuid_calls s)) (OmniElement e),
        uuid_calls = Suc (uuid_calls s)\<rparr>"] a
  show ?case by (simp add: add_elements_Cons del: add_elements.simps)
qed

lemma add_elements_unchecked_map:
  "distinct (map uuid [uuid_calls s..<uuid_calls s + length els]) \<Longrightarrow>
   set (map uuid [uuid_calls s..<uuid_calls s + length els]) \<inter> set (keys (element_map s)) = {} \<Longrightarrow>
   element_map (snd (add_elements uuid False els s))
     = element_map s
       @ zip (map uuid [uuid_calls s..<uuid_calls s + length els]) (map OmniElement els)"
proof (induction els arbitrary: s)
  case Nil
  then show ?case by simp
next
  case (Cons e els)
  let ?n = "uuid_calls s"
  let ?s1 = "\<lparr>element_map = element_map s @ [(uuid ?n, OmniElement e)],
             uuid_calls = Suc ?n\<rparr>"
  have "[?n..<?n + length (e # els)] = ?n # [Suc ?n..<?n + length (e # els)]"
    by (rule upt_conv_Cons) simp
  then have u: "[?n..<?n + length (e # els)] = ?n # [Suc ?n..<Suc ?n + length els]"
    by (simp del: upt_Suc)
  from Cons.prems(1) have d0: "distinct (map uuid (?n # [Suc ?n..<Suc ?n + length els]))"
    unfolding u .
  from Cons.prems(2) have i0:
    "set (map uuid (?n # [Suc ?n..<Suc ?n + length els])) \<inter> set (keys (element_map s)) = {}"
    unfolding u .
  from i0 have new: "uuid ?n \<notin> set (keys (element_map s))"
    by (auto simp del: upt_Suc)
  have a: "add_element uuid e False s = (uuid ?n, ?s1)"
    using setitem_new [OF new] by (simp add: add_element_insert)
  have d: "distinct (map uuid [uuid_calls ?s1..<uuid_calls ?s1 + length els])"
    using d0 by (simp del: upt_Suc)
  have i: "set (map uuid [uuid_calls ?s1..<uuid_calls ?s1 + length els])
      \<inter> set (keys (element_map ?s1)) = {}"
    using d0 i0 by (auto simp: keys_def simp del: upt_Suc)
  from Cons.IH [OF d i] a show ?case
    unfolding u by (simp add: add_elements_Cons del: add_elements.simps upt_Suc)
qed


lemma length_add_elements: "length (fst (add_elements uuid b els s)) = length els"
  by (induction els arbitrary: s) (simp_all add: add_elements_Cons del: add_elements.simps(2))

lemma find_elements_adds:
  assumes "host_search h request s = Some (Inr found)" and "found \<noteq> []"
    and "is_dict (element_map s)"
    and "get_properties request \<longrightarrow> (\<forall>c. \<exists>p. element_properties h c = Inr p)"
  shows "\<exists>rs. find_elements h uuid request s =
            (Response \<lparr>elements = rs, count = length found\<rparr>,
             snd (add_elements uuid (length found < 50) found s))
          \<and> map element_id rs = map Some (fst (add_elements uuid (length found < 50) found s))"
proof -
  from assms(2) obtain e es where f: "found = e # es" by (cases found) auto
  obtain rs where rs:
    "cache_elements h uuid request (search_root request s) (length found < 50) found [] s
       = (Response rs, snd (add_elements uuid (length found < 50) found s))"
    "map element_id rs = map Some (fst (add_elements uuid (length found < 50) found s))"
    using cache_elements_add_elements [OF assms(3,4), of uuid "search_root request s"
        "length found < 50" found "[]"]
    by auto
  from rs(2) have "length (map element_id rs)
      = length (map Some (fst (add_elements uuid (length found < 50) found s)))"
    by simp
  then have l: "length rs = length found"
    by (simp add: length_add_elements)
  from find_elements_found [OF assms(1) [unfolded f] rs(1) [unfolded f]] l rs(2) f
  show ?thesis by simp
qed

lemma counting_uuid_eq: "counting_uuid m = counting_uuid n \<longleftrightarrow> m = n"
proof
  assume "counting_uuid m = counting_uuid n"
  then have "length (counting_uuid m) = length (counting_uuid n)" by simp
  then show "m = n" by (simp add: counting_uuid_def)
qed simp

lemma distinct_counting_uuid: "distinct (map counting_uuid [m..<n])"
  by (simp add: distinct_map inj_on_def counting_uuid_eq)

lemma counting_uuid_first: "''u'' = counting_uuid n \<longleftrightarrow> n = 0"
  using counting_uuid_eq [of 0 n] by (auto simp: counting_uuid_def)

text \<open>
  C8. Let the host's search for a \<^verbatim>\<open>find_elements\<close> request return the non-empty list
  \<open>found\<close>, and let the host read properties without raising when the request asks for
  them. The request adds the elements one after the other with
  \<^verbatim>\<open>exists_check = (len(found) < 50)\<close> and answers with the identifiers
  \<^verbatim>\<open>add_element\<close> returned. With fewer than 50 elements the dedup check is on: when
  every element found matches a cached entry, the state does not change. With 50 or more
  it is off: one identifier is generated per element, in order, and (when these
  identifiers are new and differ from one another) every element gets an entry of its own
  after the old entries, so an element that was cached already is cached twice.
\<close>

theorem find_elements_exists_check:
  assumes "host_search h request s = Some (Inr found)" and "found \<noteq> []"
    and "is_dict (element_map s)"
    and "get_properties request \<longrightarrow> (\<forall>c. \<exists>p. element_properties h c = Inr p)"
  shows "(\<exists>rs. find_elements h uuid request s =
            (Response \<lparr>elements = rs, count = length found\<rparr>,
             snd (add_elements uuid (length found < 50) found s))
          \<and> map element_id rs = map Some (fst (add_elements uuid (length found < 50) found s)))
       \<and> (length found < 50
            \<and> (\<forall>e\<in>set found. \<exists>(i, c)\<in>set (element_map s). dedup_match e c) \<longrightarrow>
          snd (find_elements h uuid request s) = s)
       \<and> (50 \<le> length found \<longrightarrow>
          (\<exists>rs. fst (find_elements h uuid request s)
                  = Response \<lparr>elements = rs, count = length found\<rparr>
             \<and> map element_id rs
                 = map (\<lambda>k. Some (uuid k)) [uuid_calls s..<uuid_calls s + length found])
          \<and> uuid_calls (snd (find_elements h uuid request s)) = uuid_calls s + length found)
       \<and> (50 \<le> length found
            \<and> distinct (map uuid [uuid_calls s..<uuid_calls s + length found])
            \<and> set (map uuid [uuid_calls s..<uuid_calls s + length found])
                \<inter> set (keys (element_map s)) = {} \<longrightarrow>
          element_map (snd (find_elements h uuid request s))
            = element_map s
              @ zip (map uuid [uuid_calls s..<uuid_calls s + length found])
                  (map OmniElement found))"
proof -
  obtain rs where rs:
    "find_elements h uuid request s =
       (Response \<lparr>elements = rs, count = length found\<rparr>,
        snd (add_elements uuid (length found < 50) found s))"
    "map element_id rs = map Some (fst (add_elements uuid (length found < 50) found s))"
    using find_elements_adds [OF assms, of uuid] by blast
  have 1: "\<exists>rs. find_elements h uuid request s =
            (Response \<lparr>elements = rs, count = length found\<rparr>,
             snd (add_elements uuid (length found < 50) found s))
          \<and> map element_id rs = map Some (fst (add_elements uuid (length found < 50) found s))"
    using rs by blast
  have 2: "snd (find_elements h uuid request s) = s"
    if "length found < 50" "\<forall>e\<in>set found. \<exists>(i, c)\<in>set (element_map s). dedup_match e c"
    using rs(1) that add_elements_all_cached [OF that(2), of uuid] by simp
  have 3: "(\<exists>rs. fst (find_elements h uuid request s)
                  = Response \<lparr>elements = rs, count = length found\<rparr>
             \<and> map element_id rs
                 = map (\<lambda>k. Some (uuid k)) [uuid_calls s..<uuid_calls s + length found])
          \<and> uuid_calls (snd (find_elements h uuid request s)) = uuid_calls s + length found"
    if "50 \<le> length found"
  proof -
    from that have b: "(length found < 50) = False" by simp
    from rs(2) have "map element_id rs
        = map (\<lambda>k. Some (uuid k)) [uuid_calls s..<uuid_calls s + length found]"
      unfolding b by (simp add: add_elements_unchecked_ids del: upt_Suc)
    with rs(1) show ?thesis
      unfolding b by (simp add: add_elements_unchecked_ids del: upt_Suc)
  qed
  have 4: "element_map (snd (find_elements h uuid request s))
            = element_map s
              @ zip (map uuid [uuid_calls s..<uuid_calls s + length found])
                  (map OmniElement found)"
    if "50 \<le> length found"
      "distinct (map uuid [uuid_calls s..<uuid_calls s + length found])"
      "set (map uuid [uuid_calls s..<uuid_calls s + length found])
         \<inter> set (keys (element_map s)) = {}"
  proof -
    from that(1) have b: "(length found < 50) = False" by simp
    from rs(1) show ?thesis
      unfolding b using add_elements_unchecked_map [OF that(2,3)] by simp
  qed
  from 1 2 3 4 show ?thesis by blast
qed

theorem find_elements_exists_check_witness:
  "host_search (demo_host (replicate 50 play_button))
     \<lparr>locator = ''Toolbar//Frame/**/Button[*]'', root_widget_id = None, get_properties = False\<rparr>
     \<lparr>element_map = [(''u'', OmniElement play_button)], uuid_calls = 1\<rparr>
     = Some (Inr (replicate 50 play_button))
   \<and> replicate 50 play_button \<noteq> []
   \<and> is_dict [(''u'', OmniElement play_button)]
   \<and> (50::nat) \<le> length (replicate 50 play_button)
   \<and> distinct (map counting_uuid [1..<51])
   \<and> set (map counting_uuid [1..<51]) \<inter> set (keys [(''u'', OmniElement play_button)]) = {}
   \<and> element_map
        (snd (find_elements (demo_host (replicate 50 play_button)) counting_uuid
           \<lparr>locator = ''Toolbar//Frame/**/Button[*]'', root_widget_id = None,
            get_properties = False\<rparr>
           \<lparr>element_map = [(''u'', OmniElement play_button)], uuid_calls = 1\<rparr>))
       = (''u'', OmniElement play_button)
         # zip (map counting_uuid [1..<51]) (replicate 50 (OmniElement play_button))
   \<and> snd (find_elements (demo_host [play_button]) counting_uuid
           \<lparr>locator = ''Toolbar//Frame/**/Button[*]'', root_widget_id = None,
            get_properties = False\<rparr>
           \<lparr>element_map = [(''u'', OmniElement play_button)], uuid_calls = 1\<rparr>)
       = \<lparr>element_map = [(''u'', OmniElement play_button)], uuid_calls = 1\<rparr>"
proof -
  let ?req = "\<lparr>locator = ''Toolbar//Frame/**/Button[*]'', root_widget_id = None,
               get_properties = False\<rparr>"
  let ?s = "\<lparr>element_map = [(''u'', OmniElement play_button)], uuid_calls = 1\<rparr>"
  have hs: "host_search (demo_host found) ?req ?s = Some (Inr found)" for found
    by (simp add: host_search_def demo_host_def truthy_def)
  have d: "is_dict (element_map ?s)"
    by (simp add: is_dict_def)
  have p: "get_properties ?req \<longrightarrow> (\<forall>c. \<exists>p. element_properties (demo_host found) c = Inr p)"
    for found
    by simp
  have fresh: "set (map counting_uuid [1..<51]) \<inter> set (keys [(''u'', OmniElement play_button)])
      = {}"
    by (auto simp: keys_def counting_uuid_first)
  have m: "dedup_match play_button (OmniElement play_button)"
    by (rule dedup_match_OmniElement)
  from find_elements_exists_check [OF hs _ d p, of "replicate 50 play_button" counting_uuid]
    find_elements_exists_check [OF hs _ d p, of "[play_button]" counting_uuid]
    hs [of "replicate 50 play_button"] fresh m distinct_counting_uuid [of 1 51]
  show ?thesis
    by (simp add: is_dict_def del: upt_Suc)
qed

section \<open>The claim about insertion\<close>

lemma keys_drawn_add_element:
  assumes "keys_drawn uuid s"
  shows "keys_drawn uuid (snd (add_element uuid e b s))"
proof (cases "\<not> b \<or> find_existing e (element_map s) = None")
  case True
  have "\<exists>n<Suc (uuid_calls s). k = uuid n"
    if "k \<in> set (keys (setitem (element_map s) (uuid (uuid_calls s)) (OmniElement e)))" for k
  proof -
    from that have "k = uuid (uuid_calls s) \<or> k \<in> set (keys (element_map s))"
      by (simp add: keys_setitem_set)
    then show ?thesis
    proof
      assume "k = uuid (uuid_calls s)"
      then show ?thesis by blast
    next
      assume "k \<in> set (keys (element_map s))"
      with assms obtain n where "n < uuid_calls s" "k = uuid n"
        by (auto simp: keys_drawn_def)
      then show ?thesis using less_Suc_eq by blast
    qed
  qed
  with True show ?thesis
    by (simp add: add_element_insert keys_drawn_def)
next
  case False
  then obtain i where "b" "find_existing e (element_map s) = Some i" by auto
  with assms show ?thesis by (simp add: add_element_hit)
qed

lemma keys_drawn_calls: "keys_drawn uuid s \<Longrightarrow> keys_drawn uuid (calls uuid cs s)"
proof (induction cs arbitrary: s)
  case Nil
  then show ?case by simp
next
  case (Cons c cs)
  show ?case
  proof (cases c)
    case (AddElement e b)
    with Cons.IH [OF keys_drawn_add_element [OF Cons.prems, of e b]] show ?thesis by simp
  next
    case ResetMap
    have "keys_drawn uuid (reset_map s)"
      by (simp add: keys_drawn_def reset_map_def keys_def)
    with Cons.IH [of "reset_map s"] ResetMap show ?thesis by simp
  qed
qed

lemma keys_drawn_init: "keys_drawn uuid init"
  by (simp add: keys_drawn_def init_def keys_def)

lemma next_uuid_new:
  assumes "inj uuid" and "keys_drawn uuid s"
  shows "uuid (uuid_calls s) \<notin> set (keys (element_map s))"
proof
  assume "uuid (uuid_calls s) \<in> set (keys (element_map s))"
  with assms(2) obtain n where n: "n < uuid_calls s" "uuid (uuid_calls s) = uuid n"
    by (auto simp: keys_drawn_def)
  from assms(1) n(2) have "uuid_calls s = n" by (simp add: inj_eq)
  with n(1) show False by simp
qed

text \<open>
  C6. Let the cache be in a state the methods of \<^verbatim>\<open>ElementCache\<close> reach from the empty
  cache (any calls of \<^verbatim>\<open>add_element\<close>, with or without \<^verbatim>\<open>exists_check\<close>, and of
  \<^verbatim>\<open>reset_map\<close>), with a source of identifiers that never returns the same string
  twice, as \<^verbatim>\<open>uuid4\<close> does. Whenever \<^verbatim>\<open>add_element\<close> inserts (\<^verbatim>\<open>exists_check\<close> is
  false, or no cached entry matched), the generated identifier is not already a key of
  the map, every identifier that was in the cache still maps to the same element, and
  the map has exactly one more entry: the new one, appended.
\<close>

theorem add_element_insert_fresh:
  assumes "inj uuid"
    and "s = calls uuid cs init"
    and "\<not> exists_check \<or> (\<forall>(i, c)\<in>set (element_map s). \<not> dedup_match e c)"
  shows "fst (add_element uuid e exists_check s) \<notin> set (keys (element_map s))
       \<and> (\<forall>k\<in>set (keys (element_map s)).
            get_cached_element k (snd (add_element uuid e exists_check s))
              = get_cached_element k s)
       \<and> length (element_map (snd (add_element uuid e exists_check s)))
           = Suc (length (element_map s))
       \<and> element_map (snd (add_element uuid e exists_check s))
           = element_map s @ [(fst (add_element uuid e exists_check s), OmniElement e)]"
proof -
  have "keys_drawn uuid s"
    unfolding assms(2) using keys_drawn_init by (rule keys_drawn_calls)
  with assms(1) have new: "uuid (uuid_calls s) \<notin> set (keys (element_map s))"
    by (rule next_uuid_new)
  from add_element_append [where exists_check = exists_check and s = s and e = e
      and uuid = uuid] assms(3) new
  show ?thesis by simp
qed

theorem add_element_insert_fresh_witness:
  "inj counting_uuid
   \<and> calls counting_uuid [AddElement stage_window True, ResetMap, AddElement play_button False]
       init
     = \<lparr>element_map = [(''uu'', OmniElement play_button)], uuid_calls = 2\<rparr>
   \<and> fst (add_element counting_uuid play_button False
            \<lparr>element_map = [(''uu'', OmniElement play_button)], uuid_calls = 2\<rparr>)
     = ''uuu''
   \<and> element_map (snd (add_element counting_uuid play_button False
        \<lparr>element_map = [(''uu'', OmniElement play_button)], uuid_calls = 2\<rparr>))
     = [(''uu'', OmniElement play_button), (''uuu'', OmniElement play_button)]
   \<and> get_cached_element ''uu'' (snd (add_element counting_uuid play_button False
        \<lparr>element_map = [(''uu'', OmniElement play_button)], uuid_calls = 2\<rparr>))
     = Inr (OmniElement play_button)"
proof -
  have i: "inj counting_uuid"
    by (simp add: inj_on_def counting_uuid_eq)
  have c: "calls counting_uuid
          [AddElement stage_window True, ResetMap, AddElement play_button False] init
      = \<lparr>element_map = [(''uu'', OmniElement play_button)], uuid_calls = 2\<rparr>"
    by (simp add: add_element_def uuid4_def init_def reset_map_def counting_uuid_def
        numeral_2_eq_2)
  from add_element_insert_fresh [OF i c [symmetric], of False play_button] i c
  show ?thesis
    by (simp add: keys_def counting_uuid_def get_cached_element_def add_element_def uuid4_def
        numeral_2_eq_2)
qed


end
